theory Spec2Isabelle
  imports Complex_Main "HOL-Library.Log_Nat"
begin

section \<open>Data model\<close>

text \<open>
  \<^verbatim>\<open>enum class FanSpeed : int { OFF = 0, LOW = 1, MEDIUM = 2, HIGH = 3, FULL = 4 }\<close>.
  The relational operators of the source compare the underlying integers, which
  \<open>speed_value\<close> (the \<^verbatim>\<open>static_cast<int>\<close>) gives. The program makes a \<^verbatim>\<open>FanSpeed\<close> from an
  integer in one place only, \<^verbatim>\<open>readFanSpeed\<close>, after checking that it lies in \<open>[0,4]\<close>, so the
  five constructors are all the values there are.
\<close>

datatype FanSpeed = OFF | LOW | MEDIUM | HIGH | FULL

fun speed_value :: "FanSpeed \<Rightarrow> int" where
  "speed_value OFF = 0"
| "speed_value LOW = 1"
| "speed_value MEDIUM = 2"
| "speed_value HIGH = 3"
| "speed_value FULL = 4"

text \<open>
  Binary64 rounding. \<open>ilog2 x\<close> is, for a positive \<open>x\<close>, the integer \<open>k\<close> with
  \<open>2 ^ k \<le> x < 2 ^ (k + 1)\<close>. \<open>round_half_even\<close> rounds to the nearest integer, a tie to the
  even one. \<open>round64 x\<close> is the binary64 number nearest to \<open>x\<close>, a tie to the even
  significand: 53 significant bits, and steps of \<open>2 ^ - 1074\<close> in the subnormal range. The
  exponent has no upper bound here: a result beyond the largest double, which IEEE 754
  replaces by an infinity, stays a number.
\<close>

definition ilog2 :: "real \<Rightarrow> int" where
  "ilog2 x = (if 1 \<le> x then bitlen \<lfloor>x\<rfloor> - 1 else - bitlen (\<lceil>1 / x\<rceil> - 1))"

definition round_half_even :: "real \<Rightarrow> int" where
  "round_half_even q =
     (let f = \<lfloor>q\<rfloor>; r = q - of_int f
      in if r < 1 / 2 then f
         else if 1 / 2 < r then f + 1
         else if even f then f else f + 1)"

definition round_magnitude :: "real \<Rightarrow> real" where
  "round_magnitude x =
     (let e = max (ilog2 x - 52) (- 1074)
      in of_int (round_half_even (x / 2 powi e)) * 2 powi e)"

definition round64 :: "real \<Rightarrow> real" where
  "round64 x =
     (if x = 0 then 0
      else if x < 0 then - round_magnitude (- x)
      else round_magnitude x)"

text \<open>
  A C++ \<^verbatim>\<open>double\<close> is either not-a-number or a number, which is read as the real number it
  denotes; the two infinities are not represented. Every ordered comparison with a NaN
  operand is false and exact otherwise; arithmetic on a NaN gives NaN, and the result of
  an operation on numbers is the exact result rounded by \<open>round64\<close>, as in IEEE 754 with
  the default rounding.
\<close>

datatype double = NaN | Fin real

fun isnan :: "double \<Rightarrow> bool" where
  "isnan NaN = True"
| "isnan (Fin _) = False"

fun dle :: "double \<Rightarrow> double \<Rightarrow> bool" where
  "dle (Fin a) (Fin b) = (a \<le> b)"
| "dle _ _ = False"

fun dlt :: "double \<Rightarrow> double \<Rightarrow> bool" where
  "dlt (Fin a) (Fin b) = (a < b)"
| "dlt _ _ = False"

fun dge :: "double \<Rightarrow> double \<Rightarrow> bool" where
  "dge (Fin a) (Fin b) = (a \<ge> b)"
| "dge _ _ = False"

fun dadd :: "double \<Rightarrow> double \<Rightarrow> double" where
  "dadd (Fin a) (Fin b) = Fin (round64 (a + b))"
| "dadd _ _ = NaN"

fun dsub :: "double \<Rightarrow> double \<Rightarrow> double" where
  "dsub (Fin a) (Fin b) = Fin (round64 (a - b))"
| "dsub _ _ = NaN"

text \<open>
  Division of a double by an element count, which converts to a double exactly. The
  program divides only by \<^verbatim>\<open>temps.size()\<close> after \<^verbatim>\<open>temps.empty()\<close> was excluded; the count
  \<open>0\<close> is given the value NaN here (IEEE gives NaN or an infinity there).
\<close>

fun ddiv_size :: "double \<Rightarrow> nat \<Rightarrow> double" where
  "ddiv_size (Fin a) n = (if n = 0 then NaN else Fin (round64 (a / real n)))"
| "ddiv_size NaN _ = NaN"

text \<open>
  A number of this model is a double when rounding leaves it as it is. The operations
  above yield such numbers only, and so do \<^verbatim>\<open>std::stod\<close> and the literals of the source: the
  settings and the temperatures of the program are such numbers.
\<close>

fun binary64 :: "double \<Rightarrow> bool" where
  "binary64 NaN = True"
| "binary64 (Fin x) = (round64 x = x)"

text \<open>
  The double that a decimal text denotes (\<^verbatim>\<open>std::stod\<close> on a setting, a literal of the
  source): the nearest one.
\<close>

definition decimal :: "real \<Rightarrow> double" where
  "decimal x = Fin (round64 x)"

text \<open>The settings structure \<^verbatim>\<open>FanControllerConfig\<close> of \<^verbatim>\<open>config_parser.hpp\<close>.\<close>

record FanControllerConfig =
  fan_path :: string
  hwmon0_name :: string
  hwmon1_name :: string
  temp_hwmon0_path :: string
  temp_hwmon1_path :: string
  hysteresis :: double
  off_threshold :: double
  low_threshold :: double
  medium_threshold :: double
  high_threshold :: double
  full_threshold :: double
  interval_seconds :: int
  debug :: bool

text \<open>
  The mutable members of \<^verbatim>\<open>class FanController\<close>: \<^verbatim>\<open>current_fan_speed_\<close> and \<^verbatim>\<open>running_\<close>.
  The constant member \<^verbatim>\<open>config_\<close> is passed to every function as its first argument.
\<close>

record FanController =
  current_fan_speed :: FanSpeed
  running :: bool

section \<open>The outside world\<close>

text \<open>
  What one access to a path observes: \<^verbatim>\<open>fs::exists\<close> is false, or the stream does not
  open, or the stream opens on the given bytes. \<^verbatim>\<open>fs::exists\<close> is taken to answer; that it
  raises \<^verbatim>\<open>filesystem_error\<close> outside a \<^verbatim>\<open>try\<close> block is not modelled.
\<close>

datatype file_obs = NotExists | OpenFails | Contents string

text \<open>
  \<^verbatim>\<open>std::getline\<close> on a fresh stream: it fails when no character can be extracted, and
  otherwise yields the characters before the first newline.
\<close>

definition getline :: "string \<Rightarrow> string option" where
  "getline content =
     (if content = [] then None
      else Some (takeWhile (\<lambda>c. c \<noteq> CHR 0x0A) content))"

text \<open>
  \<^verbatim>\<open>std::stoi\<close> in base 10: leading white space is skipped, one sign is accepted, the
  longest run of decimal digits is converted; no digit raises \<^verbatim>\<open>std::invalid_argument\<close>,
  a value that does not fit a 32-bit \<^verbatim>\<open>int\<close> raises \<^verbatim>\<open>std::out_of_range\<close>.
\<close>

datatype stoi_error = invalid_argument | out_of_range

definition isspace :: "char \<Rightarrow> bool" where
  "isspace c = (c = CHR '' '' \<or> c = CHR 0x09 \<or> c = CHR 0x0A \<or> c = CHR 0x0B
                \<or> c = CHR 0x0C \<or> c = CHR 0x0D)"

definition isdigit :: "char \<Rightarrow> bool" where
  "isdigit c = (48 \<le> (of_char c :: nat) \<and> (of_char c :: nat) \<le> 57)"

fun digits_value :: "int \<Rightarrow> string \<Rightarrow> int" where
  "digits_value acc [] = acc"
| "digits_value acc (c # cs) = digits_value (acc * 10 + (of_char c - 48)) cs"

definition stoi :: "string \<Rightarrow> stoi_error + int" where
  "stoi str =
     (let s1 = dropWhile isspace str;
          negative = (case s1 of [] \<Rightarrow> False | c # _ \<Rightarrow> c = CHR ''-'');
          s2 = (case s1 of [] \<Rightarrow> []
                | c # rest \<Rightarrow> if c = CHR ''-'' \<or> c = CHR ''+'' then rest else s1);
          digits = takeWhile isdigit s2
      in if digits = [] then Inl invalid_argument
         else let v = (if negative then - digits_value 0 digits else digits_value 0 digits)
              in if v < - 2147483648 \<or> v > 2147483647 then Inl out_of_range
                 else Inr v)"

text \<open>
  What the program prints. The wording and the number formatting of the messages are
  not modelled: a message is the place of the source that prints it, with the values
  it shows. An event is a line on \<^verbatim>\<open>std::cout\<close>, a line on \<^verbatim>\<open>std::cerr\<close>, or a pause.
\<close>

datatype message =
    SensorPathMissing string
  | SensorOpenFailed string
  | SensorFileEmpty string
  | NegativeTemperature string int
  | UnreasonableTemperature string real
  | InvalidTemperatureValue string stoi_error
  | AllSensorsFailed
  | UsingSensors nat nat
  | SkippingCycle
  | Transition double FanSpeed FanSpeed
  | Status double FanSpeed
  | InvalidFanLevel int
  | FanFileMissing string
  | FanOpenFailed string
  | SetFanFailed string
  | FanReadFailed
  | FanFileEmpty
  | InvalidFanRead int
  | InvalidFanValue stoi_error
  | VerificationFailed FanSpeed FanSpeed

datatype event = Stdout message | Stderr message | Sleep int | Usleep nat

text \<open>
  What one call of \<^verbatim>\<open>setFanSpeed\<close> meets at the device file, step by step. The results
  of the stream write and of \<^verbatim>\<open>fsync\<close> are part of the world although the source never
  looks at them. \<open>fw_throws\<close> stands for a \<^verbatim>\<open>std::exception\<close> raised inside the
  \<^verbatim>\<open>try\<close> block, taken at its first statement; wherever it is raised, the \<^verbatim>\<open>catch\<close>
  clause prints and returns false, and \<^verbatim>\<open>current_fan_speed_\<close> has not been stored.
\<close>

record fan_write_env =
  fw_exists :: bool
  fw_throws :: bool
  fw_open_ok :: bool
  fw_write_ok :: bool
  fw_sync_ok :: bool
  fw_readback :: file_obs

text \<open>
  What one iteration of the control loop meets: the two sensor files, the device file
  during the write, the device file at the re-synchronising read, and whether a
  \<^verbatim>\<open>stop()\<close> completes between this evaluation of the loop condition and the next.
\<close>

record tick_env =
  sensor0 :: file_obs
  sensor1 :: file_obs
  fan_write :: fan_write_env
  fan_resync :: file_obs
  stop_signal :: bool

section \<open>Logging\<close>

definition logMessage :: "message \<Rightarrow> event list" where
  "logMessage m = [Stdout m]"

definition logDebug :: "FanControllerConfig \<Rightarrow> message \<Rightarrow> event list" where
  "logDebug cfg m = (if debug cfg then [Stderr m] else [])"

section \<open>Temperature acquisition\<close>

definition readTemperatureSensor ::
  "FanControllerConfig \<Rightarrow> string \<Rightarrow> file_obs \<Rightarrow> double \<times> event list" where
  "readTemperatureSensor cfg temp_path obs =
     (case obs of
        NotExists \<Rightarrow>
          (NaN, if debug cfg then logDebug cfg (SensorPathMissing temp_path) else [])
      | OpenFails \<Rightarrow>
          (NaN, if debug cfg then logDebug cfg (SensorOpenFailed temp_path) else [])
      | Contents content \<Rightarrow>
          (case getline content of
             None \<Rightarrow>
               (NaN, if debug cfg then logDebug cfg (SensorFileEmpty temp_path) else [])
           | Some temp_str \<Rightarrow>
               (case stoi temp_str of
                  Inl e \<Rightarrow> (NaN, [Stderr (InvalidTemperatureValue temp_path e)])
                | Inr temp_millicelsius \<Rightarrow>
                    if temp_millicelsius < 0
                    then (NaN, if debug cfg
                               then logDebug cfg (NegativeTemperature temp_path temp_millicelsius)
                               else [])
                    else let temp_celsius = round64 (real_of_int temp_millicelsius / 1000)
                         in if temp_celsius < - 50 \<or> temp_celsius > 150
                            then (NaN, [Stderr (UnreasonableTemperature temp_path temp_celsius)])
                            else (Fin temp_celsius, []))))"

text \<open>
  One of the two identical blocks of \<^verbatim>\<open>getAverageTemperature\<close>: what the block appends
  to \<^verbatim>\<open>temps\<close>, what it appends to \<^verbatim>\<open>failed_sensors\<close>, and what it prints.
\<close>

definition readSlot ::
  "FanControllerConfig \<Rightarrow> string \<Rightarrow> file_obs \<Rightarrow> double list \<times> string list \<times> event list" where
  "readSlot cfg path obs =
     (if path \<noteq> []
      then (case readTemperatureSensor cfg path obs of
              (temp, ev) \<Rightarrow>
                if \<not> isnan temp then ([temp], [], ev) else ([], [path], ev))
      else ([], [], []))"

definition getAverageTemperature ::
  "FanControllerConfig \<Rightarrow> file_obs \<Rightarrow> file_obs \<Rightarrow> double \<times> event list" where
  "getAverageTemperature cfg obs0 obs1 =
     (case readSlot cfg (temp_hwmon0_path cfg) obs0 of
        (temps0, failed0, ev0) \<Rightarrow>
     (case readSlot cfg (temp_hwmon1_path cfg) obs1 of
        (temps1, failed1, ev1) \<Rightarrow>
       let temps = temps0 @ temps1;
           failed_sensors = failed0 @ failed1
       in if temps = [] then (NaN, ev0 @ ev1 @ [Stderr AllSensorsFailed])
          else let ev2 = (if failed_sensors \<noteq> []
                          then logDebug cfg (UsingSensors (length temps) (length failed_sensors))
                          else []);
                   sum = foldl dadd (Fin 0) temps
               in (ddiv_size sum (length temps), ev0 @ ev1 @ ev2)))"

section \<open>Speed policy\<close>

definition determineTargetSpeed :: "FanControllerConfig \<Rightarrow> double \<Rightarrow> FanSpeed" where
  "determineTargetSpeed cfg temperature =
     (if dge temperature (full_threshold cfg) then FULL
      else if dge temperature (high_threshold cfg) then HIGH
      else if dge temperature (medium_threshold cfg) then MEDIUM
      else if dge temperature (low_threshold cfg) then LOW
      else OFF)"

text \<open>
  The \<^verbatim>\<open>default\<close> label of the \<^verbatim>\<open>switch\<close> in \<^verbatim>\<open>getThresholdForSpeed\<close> is reached by none of
  the five values.
\<close>

fun getThresholdForSpeed :: "FanControllerConfig \<Rightarrow> FanSpeed \<Rightarrow> double" where
  "getThresholdForSpeed cfg OFF = low_threshold cfg"
| "getThresholdForSpeed cfg LOW = medium_threshold cfg"
| "getThresholdForSpeed cfg MEDIUM = high_threshold cfg"
| "getThresholdForSpeed cfg HIGH = full_threshold cfg"
| "getThresholdForSpeed cfg FULL = full_threshold cfg"

definition checkHysteresis ::
  "FanControllerConfig \<Rightarrow> FanController \<Rightarrow> double \<Rightarrow> FanSpeed \<Rightarrow> bool" where
  "checkHysteresis cfg st temperature target_speed =
     (if dle (hysteresis cfg) (Fin 0) then True
      else let current_speed = current_fan_speed st
           in if speed_value target_speed > speed_value current_speed then True
              else if speed_value target_speed < speed_value current_speed
                   then let threshold = getThresholdForSpeed cfg target_speed
                        in dle temperature (dsub threshold (hysteresis cfg))
                   else True)"

section \<open>Fan device\<close>

text \<open>\<^verbatim>\<open>static_cast<FanSpeed>\<close> on an integer that was checked to lie in \<open>[0,4]\<close>.\<close>

definition speed_of_int :: "int \<Rightarrow> FanSpeed" where
  "speed_of_int v =
     (if v = 0 then OFF else if v = 1 then LOW else if v = 2 then MEDIUM
      else if v = 3 then HIGH else FULL)"

definition readFanSpeed :: "FanControllerConfig \<Rightarrow> file_obs \<Rightarrow> FanSpeed \<times> event list" where
  "readFanSpeed cfg obs =
     (case obs of
        NotExists \<Rightarrow> (OFF, [Stderr (FanFileMissing (fan_path cfg))])
      | OpenFails \<Rightarrow> (OFF, [Stderr FanReadFailed])
      | Contents content \<Rightarrow>
          (case getline content of
             None \<Rightarrow> (OFF, [Stderr FanFileEmpty])
           | Some speed_str \<Rightarrow>
               (case stoi speed_str of
                  Inl e \<Rightarrow> (OFF, [Stderr (InvalidFanValue e)])
                | Inr speed_val \<Rightarrow>
                    if speed_val \<ge> 0 \<and> speed_val \<le> 4
                    then (speed_of_int speed_val, [])
                    else (OFF, [Stderr (InvalidFanRead speed_val)]))))"

definition verifyFanSpeedWrite ::
  "FanControllerConfig \<Rightarrow> file_obs \<Rightarrow> FanSpeed \<Rightarrow> bool \<times> event list" where
  "verifyFanSpeedWrite cfg obs expected_speed =
     (case readFanSpeed cfg obs of
        (actual_speed, ev) \<Rightarrow>
          if actual_speed \<noteq> expected_speed
          then (False, ev @ [Stderr (VerificationFailed expected_speed actual_speed)])
          else (True, ev))"

text \<open>
  \<^verbatim>\<open>setFanSpeed\<close> returns its boolean, the controller afterwards and what it printed.
  After the stream is found open the source writes, flushes, closes, calls \<^verbatim>\<open>fsync\<close> on a
  second descriptor when that opens, and sleeps 0.1 s; none of the results of these steps
  is tested, so \<open>fw_write_ok\<close> and \<open>fw_sync_ok\<close> do not occur below.
\<close>

definition setFanSpeed ::
  "FanControllerConfig \<Rightarrow> FanController \<Rightarrow> fan_write_env \<Rightarrow> FanSpeed
     \<Rightarrow> bool \<times> FanController \<times> event list" where
  "setFanSpeed cfg st env speed =
     (if speed = current_fan_speed st then (True, st, [])
      else if speed_value speed < 0 \<or> speed_value speed > 4
      then (False, st, [Stderr (InvalidFanLevel (speed_value speed))])
      else if \<not> fw_exists env
      then (False, st, [Stderr (FanFileMissing (fan_path cfg))])
      else if fw_throws env
      then (False, st, [Stderr (SetFanFailed (fan_path cfg))])
      else if \<not> fw_open_ok env
      then (False, st, [Stderr (FanOpenFailed (fan_path cfg))])
      else (case verifyFanSpeedWrite cfg (fw_readback env) speed of
              (verified, ev) \<Rightarrow>
                if \<not> verified then (False, st, Usleep 100000 # ev)
                else (True, st\<lparr>current_fan_speed := speed\<rparr>, Usleep 100000 # ev)))"

section \<open>Control loop\<close>

text \<open>The body of the \<^verbatim>\<open>while\<close> loop of \<^verbatim>\<open>run\<close>: one tick.\<close>

definition iteration ::
  "FanControllerConfig \<Rightarrow> FanController \<Rightarrow> tick_env \<Rightarrow> FanController \<times> event list" where
  "iteration cfg st env =
     (case getAverageTemperature cfg (sensor0 env) (sensor1 env) of
        (temp_average, ev1) \<Rightarrow>
          if isnan temp_average
          then (st, ev1 @ logDebug cfg SkippingCycle @ [Sleep (interval_seconds cfg)])
          else let target_speed = determineTargetSpeed cfg temp_average
               in if checkHysteresis cfg st temp_average target_speed
                  then (if target_speed \<noteq> current_fan_speed st
                        then let old_speed = current_fan_speed st
                             in (case setFanSpeed cfg st (fan_write env) target_speed of
                                   (ok, st1, ev2) \<Rightarrow>
                                     if ok
                                     then (st1, ev1 @ ev2
                                             @ logMessage (Transition temp_average old_speed target_speed)
                                             @ [Sleep (interval_seconds cfg)])
                                     else (case readFanSpeed cfg (fan_resync env) of
                                             (hw_speed, ev3) \<Rightarrow>
                                               (st1\<lparr>current_fan_speed := hw_speed\<rparr>,
                                                ev1 @ ev2 @ ev3 @ [Sleep (interval_seconds cfg)])))
                        else (st, ev1 @ [Sleep (interval_seconds cfg)]))
                  else if debug cfg
                  then (st, ev1 @ logDebug cfg (Status temp_average (current_fan_speed st))
                              @ [Sleep (interval_seconds cfg)])
                  else (st, ev1 @ [Sleep (interval_seconds cfg)]))"

definition stop :: "FanController \<Rightarrow> FanController" where
  "stop st = st\<lparr>running := False\<rparr>"

text \<open>
  The loop of \<^verbatim>\<open>run\<close>, on the list of what the successive iterations meet. The loop
  has no bound of its own: the result is \<open>None\<close> when the list is used up while
  \<^verbatim>\<open>running_\<close> is still true, and otherwise the controller at the exit, the events in
  order and the number of iterations done. The body neither reads nor writes
  \<^verbatim>\<open>running_\<close>, so a \<^verbatim>\<open>stop()\<close> that arrives during an iteration is applied at its end.
\<close>

fun run_loop ::
  "FanControllerConfig \<Rightarrow> FanController \<Rightarrow> tick_env list
     \<Rightarrow> (FanController \<times> event list \<times> nat) option" where
  "run_loop cfg st [] = (if \<not> running st then Some (st, [], 0) else None)"
| "run_loop cfg st (env # rest) =
     (if \<not> running st then Some (st, [], 0)
      else (case iteration cfg st env of
              (st1, ev) \<Rightarrow>
                (case run_loop cfg (if stop_signal env then stop st1 else st1) rest of
                   None \<Rightarrow> None
                 | Some (st2, evs, n) \<Rightarrow> Some (st2, ev @ evs, Suc n))))"

text \<open>
  \<^verbatim>\<open>run\<close>: the flag is stored first, then the loop starts. \<open>stop_at_entry\<close> says that a
  \<^verbatim>\<open>stop()\<close> completes between that store and the first evaluation of the loop condition.
\<close>

definition run ::
  "FanControllerConfig \<Rightarrow> FanController \<Rightarrow> bool \<Rightarrow> tick_env list
     \<Rightarrow> (FanController \<times> event list \<times> nat) option" where
  "run cfg st stop_at_entry envs =
     (let st1 = st\<lparr>running := True\<rparr>;
          st2 = (if stop_at_entry then stop st1 else st1)
      in run_loop cfg st2 envs)"

text \<open>The controller after a sequence of ticks, whatever the flag says.\<close>

fun iterations :: "FanControllerConfig \<Rightarrow> FanController \<Rightarrow> tick_env list \<Rightarrow> FanController" where
  "iterations cfg st [] = st"
| "iterations cfg st (env # rest) = iterations cfg (fst (iteration cfg st env)) rest"

section \<open>Vocabulary of the properties\<close>

text \<open>
  The settings that \<^verbatim>\<open>config_parser.hpp\<close> gives by default, with both sensor paths found.
\<close>

definition example_config :: FanControllerConfig where
  "example_config =
     \<lparr>fan_path = ''/sys/class/thermal/cooling_device0/cur_state'',
      hwmon0_name = ''cpu_thermal'',
      hwmon1_name = ''rp1_adc'',
      temp_hwmon0_path = ''/sys/class/hwmon/hwmon0/temp1_input'',
      temp_hwmon1_path = ''/sys/class/hwmon/hwmon1/temp1_input'',
      hysteresis = Fin 2,
      off_threshold = Fin 53,
      low_threshold = Fin 54,
      medium_threshold = Fin 59,
      high_threshold = Fin 64,
      full_threshold = Fin 70,
      interval_seconds = 15,
      debug = False\<rparr>"

text \<open>
  The default settings with \<^verbatim>\<open>LOW_THRESHOLD=54.1\<close> and \<^verbatim>\<open>HYSTERESIS=0.4\<close>, and with
  \<^verbatim>\<open>HYSTERESIS=0.1\<close>: none of these decimals is a binary64 number.
\<close>

definition config_54_1 :: FanControllerConfig where
  "config_54_1 = example_config\<lparr>low_threshold := decimal (541 / 10), hysteresis := decimal (2 / 5)\<rparr>"

definition config_0_1 :: FanControllerConfig where
  "config_0_1 = example_config\<lparr>hysteresis := decimal (1 / 10)\<rparr>"

text \<open>A device file on which every step of a write succeeds and which then reads \<open>obs\<close>.\<close>

definition healthy_write :: "file_obs \<Rightarrow> fan_write_env" where
  "healthy_write obs =
     \<lparr>fw_exists = True, fw_throws = False, fw_open_ok = True, fw_write_ok = True,
      fw_sync_ok = True, fw_readback = obs\<rparr>"

text \<open>
  The thresholds are strictly increasing: \<^verbatim>\<open>off < low < medium < high < full\<close>, the order
  whose violation \<^verbatim>\<open>initialize\<close> reports. No threshold is NaN then.
\<close>

definition ascending :: "FanControllerConfig \<Rightarrow> bool" where
  "ascending cfg =
     (dlt (off_threshold cfg) (low_threshold cfg)
      \<and> dlt (low_threshold cfg) (medium_threshold cfg)
      \<and> dlt (medium_threshold cfg) (high_threshold cfg)
      \<and> dlt (high_threshold cfg) (full_threshold cfg))"

text \<open>
  The boundary at which a speed is entered: the setting named after the speed
  (\<^verbatim>\<open>OFF_THRESHOLD\<close> for OFF, \<^verbatim>\<open>LOW_THRESHOLD\<close> for LOW, and so on). The source has no such
  function; \<^verbatim>\<open>getThresholdForSpeed\<close> gives the boundary of the next higher speed.
\<close>

fun entry_threshold :: "FanControllerConfig \<Rightarrow> FanSpeed \<Rightarrow> double" where
  "entry_threshold cfg OFF = off_threshold cfg"
| "entry_threshold cfg LOW = low_threshold cfg"
| "entry_threshold cfg MEDIUM = medium_threshold cfg"
| "entry_threshold cfg HIGH = high_threshold cfg"
| "entry_threshold cfg FULL = full_threshold cfg"

text \<open>The average temperature that a tick measures.\<close>

definition measured :: "FanControllerConfig \<Rightarrow> tick_env \<Rightarrow> double" where
  "measured cfg env = fst (getAverageTemperature cfg (sensor0 env) (sensor1 env))"

text \<open>
  The open band of width \<open>hysteresis\<close> below a boundary, its lower end computed as the
  program computes \<^verbatim>\<open>threshold - config_.hysteresis\<close>.
\<close>

definition in_band :: "FanControllerConfig \<Rightarrow> double \<Rightarrow> double \<Rightarrow> bool" where
  "in_band cfg boundary t = (dlt (dsub boundary (hysteresis cfg)) t \<and> dlt t boundary)"

text \<open>
  A tick in which both sensor files hold \<open>millis\<close>, every step of a write succeeds, the
  device file reads \<open>dev\<close> afterwards, and no \<^verbatim>\<open>stop()\<close> comes.
\<close>

definition example_tick :: "string \<Rightarrow> string \<Rightarrow> tick_env" where
  "example_tick millis dev =
     \<lparr>sensor0 = Contents millis, sensor1 = Contents millis,
      fan_write = healthy_write (Contents dev), fan_resync = Contents dev,
      stop_signal = False\<rparr>"

text \<open>
  The readings of the configured slots, in order: a slot whose path is empty contributes
  nothing, any other slot contributes what \<^verbatim>\<open>readTemperatureSensor\<close> returns for it.
\<close>

definition configured_readings ::
  "FanControllerConfig \<Rightarrow> file_obs \<Rightarrow> file_obs \<Rightarrow> double list" where
  "configured_readings cfg obs0 obs1 =
     (if temp_hwmon0_path cfg = [] then []
      else [fst (readTemperatureSensor cfg (temp_hwmon0_path cfg) obs0)])
     @ (if temp_hwmon1_path cfg = [] then []
        else [fst (readTemperatureSensor cfg (temp_hwmon1_path cfg) obs1)])"

fun valid_values :: "double list \<Rightarrow> real list" where
  "valid_values [] = []"
| "valid_values (NaN # rs) = valid_values rs"
| "valid_values (Fin x # rs) = x # valid_values rs"

text \<open>
  The aggregate as the specification words it: the arithmetic mean of the valid
  readings, as the double nearest to it, and the marker for no temperature when there is
  none.
\<close>

definition spec_aggregate :: "double list \<Rightarrow> double" where
  "spec_aggregate rs =
     (if valid_values rs = [] then NaN
      else Fin (round64 (sum_list (valid_values rs) / real (length (valid_values rs)))))"

text \<open>
  Why a read of a sensor fails, in the words of the specification: the path is missing,
  the file cannot be opened, it is empty, its first line is not an \<^verbatim>\<open>int\<close>, the value is
  negative, or the value is above 150 degrees. \<open>None\<close> is a read that succeeds.
\<close>

datatype failure = PathMissing | Unreadable | EmptyFile | Unparsable | NegativeValue | OutOfRange

definition failure_of :: "file_obs \<Rightarrow> failure option" where
  "failure_of obs =
     (case obs of
        NotExists \<Rightarrow> Some PathMissing
      | OpenFails \<Rightarrow> Some Unreadable
      | Contents content \<Rightarrow>
          (case getline content of
             None \<Rightarrow> Some EmptyFile
           | Some line \<Rightarrow>
               (case stoi line of
                  Inl e \<Rightarrow> Some Unparsable
                | Inr v \<Rightarrow>
                    if v < 0 then Some NegativeValue
                    else if real_of_int v / 1000 > 150 then Some OutOfRange
                    else None)))"

section \<open>Facts about binary64 rounding\<close>

lemma ilog2_bounds:
  assumes "0 < x"
  shows "2 powi (ilog2 x) \<le> x \<and> x < 2 powi (ilog2 x + 1)"
proof (cases "1 \<le> x")
  case True
  define n where "n = \<lfloor>x\<rfloor>"
  from True have n1: "1 \<le> n" by (simp add: n_def)
  then have n0: "0 < n" by simp
  from bitlen_bounds[OF n0] have lo: "2 ^ nat (bitlen n - 1) \<le> n" and hi: "n < 2 ^ nat (bitlen n)"
    by simp_all
  from n0 have b1: "1 \<le> bitlen n"
    by (simp add: bitlen_alt_def)
  have il: "ilog2 x = bitlen n - 1" using True by (simp add: ilog2_def n_def)
  have "(2::real) powi (bitlen n - 1) = 2 ^ nat (bitlen n - 1)"
    using b1 by (simp add: power_int_nonneg_exp)
  also have "\<dots> = of_int (2 ^ nat (bitlen n - 1))" by simp
  also have "\<dots> \<le> of_int n" using lo by (simp only: of_int_le_iff)
  also have "\<dots> \<le> x" by (simp add: n_def)
  finally have A: "2 powi (ilog2 x) \<le> x" by (simp add: il)
  from hi have "n + 1 \<le> 2 ^ nat (bitlen n)" by simp
  then have "real_of_int (n + 1) \<le> real_of_int (2 ^ nat (bitlen n))" by (simp only: of_int_le_iff)
  moreover have "x < real_of_int (n + 1)" by (simp add: n_def)
  ultimately have "x < real_of_int (2 ^ nat (bitlen n))" by linarith
  also have "\<dots> = 2 powi (bitlen n)" using b1 by (simp add: power_int_nonneg_exp)
  finally have B: "x < 2 powi (ilog2 x + 1)" by (simp add: il)
  from A B show ?thesis ..
next
  case False
  define y where "y = 1 / x"
  define n where "n = \<lceil>y\<rceil>"
  define k where "k = bitlen (n - 1)"
  from False assms have y1: "1 < y" by (simp add: y_def)
  then have n2: "2 \<le> n" unfolding n_def by linarith
  then have n0: "0 < n - 1" by simp
  from bitlen_bounds[OF n0] have lo: "2 ^ nat (k - 1) \<le> n - 1" and hi: "n - 1 < 2 ^ nat k"
    by (simp_all add: k_def)
  from n0 have k1: "1 \<le> k" by (simp add: k_def bitlen_alt_def)
  have il: "ilog2 x = - k" using False by (simp add: ilog2_def k_def n_def y_def)
  from hi have "n \<le> 2 ^ nat k" by simp
  then have "real_of_int n \<le> real_of_int (2 ^ nat k)" by (simp only: of_int_le_iff)
  then have "real_of_int n \<le> 2 ^ nat k" by simp
  moreover have "y \<le> real_of_int n" by (simp add: n_def)
  ultimately have "y \<le> 2 ^ nat k" by linarith
  then have "1 / x \<le> 2 ^ nat k" by (simp add: y_def)
  with assms have "1 \<le> x * 2 ^ nat k" by (simp add: field_simps)
  then have "1 / 2 ^ nat k \<le> x" by (simp add: field_simps)
  moreover have "(2::real) powi (- k) = 1 / 2 ^ nat k"
    using k1 by (simp add: power_int_minus_divide power_int_nonneg_exp)
  ultimately have A: "2 powi (ilog2 x) \<le> x" by (simp add: il)
  from lo have "real_of_int (2 ^ nat (k - 1)) \<le> real_of_int (n - 1)" by (simp only: of_int_le_iff)
  then have "2 ^ nat (k - 1) \<le> real_of_int (n - 1)" by simp
  moreover have "real_of_int (n - 1) < y" unfolding n_def by linarith
  ultimately have "2 ^ nat (k - 1) < y" by linarith
  then have "2 ^ nat (k - 1) < 1 / x" by (simp add: y_def)
  with assms have "x * 2 ^ nat (k - 1) < 1" by (simp add: field_simps)
  then have "x < 1 / 2 ^ nat (k - 1)" by (simp add: field_simps)
  moreover have "(2::real) powi (- k + 1) = 1 / 2 ^ nat (k - 1)"
  proof -
    have "(2::real) powi (- k + 1) = 2 powi (- (k - 1))" by simp
    also have "\<dots> = 1 / 2 powi (k - 1)" by (rule power_int_minus_divide)
    also have "\<dots> = 1 / 2 ^ nat (k - 1)" using k1 by (simp add: power_int_nonneg_exp)
    finally show ?thesis .
  qed
  ultimately have B: "x < 2 powi (ilog2 x + 1)" by (simp add: il)
  from A B show ?thesis ..
qed

lemma ilog2_unique:
  assumes "0 < x" "2 powi k \<le> x" "x < 2 powi (k + 1)"
  shows "ilog2 x = k"
proof -
  from ilog2_bounds[OF assms(1)] have lo: "2 powi (ilog2 x) \<le> x" and hi: "x < 2 powi (ilog2 x + 1)"
    by simp_all
  from lo assms(3) have "(2::real) powi (ilog2 x) < 2 powi (k + 1)" by linarith
  then have a: "ilog2 x < k + 1"
    by (metis linorder_not_le one_le_numeral power_int_increasing not_less)
  from assms(2) hi have "(2::real) powi k < 2 powi (ilog2 x + 1)" by linarith
  then have b: "k < ilog2 x + 1"
    by (metis linorder_not_le one_le_numeral power_int_increasing not_less)
  from a b show ?thesis by simp
qed

lemma round_half_even_of_int: "round_half_even (of_int n) = n"
  by (simp add: round_half_even_def)

lemma round_half_even_bounds: "\<lfloor>q\<rfloor> \<le> round_half_even q \<and> round_half_even q \<le> \<lfloor>q\<rfloor> + 1"
  by (simp add: round_half_even_def Let_def)

lemma round_half_even_mono:
  assumes "q \<le> q'"
  shows "round_half_even q \<le> round_half_even q'"
proof (cases "\<lfloor>q\<rfloor> = \<lfloor>q'\<rfloor>")
  case True
  with assms show ?thesis
    by (auto simp add: round_half_even_def Let_def)
next
  case False
  with assms have "\<lfloor>q\<rfloor> + 1 \<le> \<lfloor>q'\<rfloor>"
    using floor_mono[OF assms] by linarith
  with round_half_even_bounds[of q] round_half_even_bounds[of q'] show ?thesis
    by linarith
qed

lemma round_half_even_nearest:
  assumes "of_int m - 1 / 2 < q" "q < of_int m + 1 / 2"
  shows "round_half_even q = m"
proof (cases "of_int m \<le> q")
  case True
  with assms have "\<lfloor>q\<rfloor> = m" by linarith
  with assms show ?thesis
    by (simp add: round_half_even_def Let_def)
next
  case False
  with assms have f: "\<lfloor>q\<rfloor> = m - 1" by linarith
  from assms have "1 / 2 < q - of_int (m - 1)" by simp
  with f show ?thesis
    by (simp add: round_half_even_def Let_def)
qed

lemma two_powi_less_cancel: "(2::real) powi a < 2 powi b \<Longrightarrow> a < b"
  by (metis linorder_not_le one_le_numeral power_int_increasing not_less)

lemma two_powi_mono: "a \<le> b \<Longrightarrow> (2::real) powi a \<le> 2 powi b"
  by (rule power_int_increasing) simp_all

lemma two_powi_53: "(2::real) powi (e + 53) = 2 ^ 53 * 2 powi e"
  by (simp add: power_int_add)

lemma two_powi_52: "(2::real) powi (e + 52) = 2 ^ 52 * 2 powi e"
  by (simp add: power_int_add)

lemma ilog2_mono:
  assumes "0 < x" "x \<le> y"
  shows "ilog2 x \<le> ilog2 y"
proof -
  from assms have y: "0 < y" by simp
  from ilog2_bounds[OF assms(1)] ilog2_bounds[OF y] assms(2)
  have "(2::real) powi (ilog2 x) < 2 powi (ilog2 y + 1)" by linarith
  then have "ilog2 x < ilog2 y + 1" by (rule two_powi_less_cancel)
  then show ?thesis by simp
qed

text \<open>The scaled magnitude lies below \<open>2 ^ 53\<close>, and from \<open>2 ^ 52\<close> on in the normal range.\<close>

lemma scaled_upper:
  assumes "0 < x"
  shows "x / 2 powi (max (ilog2 x - 52) (- 1074)) < 2 ^ 53"
proof -
  let ?e = "max (ilog2 x - 52) (- 1074)"
  have "ilog2 x + 1 \<le> ?e + 53" by simp
  then have "(2::real) powi (ilog2 x + 1) \<le> 2 powi (?e + 53)" by (rule two_powi_mono)
  with ilog2_bounds[OF assms] have "x < 2 powi (?e + 53)" by linarith
  then have "x < 2 ^ 53 * 2 powi ?e" by (simp only: two_powi_53)
  then show ?thesis by (simp add: field_simps)
qed

lemma scaled_lower:
  assumes "0 < x" "- 1074 \<le> ilog2 x - 52"
  shows "2 ^ 52 \<le> x / 2 powi (max (ilog2 x - 52) (- 1074))"
proof -
  from assms(2) have e: "max (ilog2 x - 52) (- 1074) = ilog2 x - 52" by simp
  have "(2::real) powi (ilog2 x) = 2 powi ((ilog2 x - 52) + 52)" by simp
  also have "\<dots> = 2 ^ 52 * 2 powi (ilog2 x - 52)" by (rule two_powi_52)
  finally have "2 ^ 52 * 2 powi (ilog2 x - 52) \<le> x"
    using ilog2_bounds[OF assms(1)] by simp
  then show ?thesis unfolding e by (simp add: field_simps)
qed

lemma round_magnitude_nonneg:
  assumes "0 < x"
  shows "0 \<le> round_magnitude x"
proof -
  let ?e = "max (ilog2 x - 52) (- 1074)"
  from assms have "0 \<le> x / 2 powi ?e" by simp
  from round_half_even_mono[OF this] have "0 \<le> round_half_even (x / 2 powi ?e)"
    using round_half_even_of_int[of 0] by simp
  then show ?thesis
    by (simp add: round_magnitude_def Let_def)
qed

lemma round_magnitude_exact:
  assumes x: "0 < x" and rep: "x = of_int m * 2 powi j" and small: "x < 2 powi (j + 53)"
    and j: "- 1074 \<le> j"
  shows "round_magnitude x = x"
proof -
  define e where "e = max (ilog2 x - 52) (- 1074)"
  from ilog2_bounds[OF x] small have "(2::real) powi (ilog2 x) < 2 powi (j + 53)" by linarith
  then have "ilog2 x < j + 53" by (rule two_powi_less_cancel)
  with j have ej: "e \<le> j" by (simp add: e_def)
  have "(2::real) powi j = 2 powi ((j - e) + e)" by simp
  also have "\<dots> = 2 powi (j - e) * 2 powi e" by (rule power_int_add) simp
  also have "\<dots> = 2 ^ nat (j - e) * 2 powi e"
    using ej by (simp add: power_int_nonneg_exp)
  finally have pj: "(2::real) powi j = 2 ^ nat (j - e) * 2 powi e" .
  have "x / 2 powi e = of_int m * 2 powi j / 2 powi e"
    by (simp only: rep[symmetric])
  also have "\<dots> = of_int m * (2 ^ nat (j - e) * 2 powi e) / 2 powi e"
    by (simp only: pj)
  also have "\<dots> = of_int (m * 2 ^ nat (j - e))" by simp
  finally have q: "x / 2 powi e = of_int (m * 2 ^ nat (j - e))" .
  have "round_magnitude x = of_int (round_half_even (x / 2 powi e)) * 2 powi e"
    by (simp add: round_magnitude_def Let_def e_def)
  also have "\<dots> = of_int (m * 2 ^ nat (j - e)) * 2 powi e"
    by (simp only: q round_half_even_of_int)
  also have "\<dots> = x / 2 powi e * 2 powi e" by (simp only: q)
  also have "\<dots> = x" by simp
  finally show ?thesis .
qed

lemma round_magnitude_mono:
  assumes x: "0 < x" and xy: "x \<le> y"
  shows "round_magnitude x \<le> round_magnitude y"
proof -
  let ?ex = "max (ilog2 x - 52) (- 1074)"
  let ?ey = "max (ilog2 y - 52) (- 1074)"
  from x xy have y: "0 < y" by simp
  from ilog2_mono[OF x xy] have e: "?ex \<le> ?ey" by simp
  show ?thesis
  proof (cases "?ex = ?ey")
    case True
    from xy have "x / 2 powi ?ex \<le> y / 2 powi ?ex"
      by (simp add: divide_right_mono)
    from round_half_even_mono[OF this]
    have "real_of_int (round_half_even (x / 2 powi ?ex)) * 2 powi ?ex
            \<le> real_of_int (round_half_even (y / 2 powi ?ex)) * 2 powi ?ex"
      by (simp add: mult_right_mono)
    then show ?thesis
      unfolding round_magnitude_def Let_def True[symmetric] .
  next
    case False
    with e have lt: "?ex + 1 \<le> ?ey" by simp
    then have normal: "- 1074 \<le> ilog2 y - 52" by simp
    from scaled_upper[OF x] have "x / 2 powi ?ex \<le> of_int (2 ^ 53)" by simp
    from round_half_even_mono[OF this]
    have "round_half_even (x / 2 powi ?ex) \<le> 2 ^ 53"
      by (simp only: round_half_even_of_int)
    then have "real_of_int (round_half_even (x / 2 powi ?ex)) \<le> real_of_int (2 ^ 53)"
      by (simp only: of_int_le_iff)
    then have "real_of_int (round_half_even (x / 2 powi ?ex)) * 2 powi ?ex \<le> 2 ^ 53 * 2 powi ?ex"
      by (simp add: mult_right_mono)
    then have A: "round_magnitude x \<le> 2 powi (?ex + 53)"
      by (simp only: round_magnitude_def Let_def two_powi_53)
    from scaled_lower[OF y normal] have "of_int (2 ^ 52) \<le> y / 2 powi ?ey" by simp
    from round_half_even_mono[OF this]
    have "2 ^ 52 \<le> round_half_even (y / 2 powi ?ey)"
      by (simp only: round_half_even_of_int)
    then have "real_of_int (2 ^ 52) \<le> real_of_int (round_half_even (y / 2 powi ?ey))"
      by (simp only: of_int_le_iff)
    then have "2 ^ 52 * 2 powi ?ey \<le> real_of_int (round_half_even (y / 2 powi ?ey)) * 2 powi ?ey"
      by (simp add: mult_right_mono)
    then have B: "2 powi (?ey + 52) \<le> round_magnitude y"
      by (simp only: round_magnitude_def Let_def two_powi_52)
    from lt have "?ex + 53 \<le> ?ey + 52" by simp
    then have "(2::real) powi (?ex + 53) \<le> 2 powi (?ey + 52)" by (rule two_powi_mono)
    with A B show ?thesis by linarith
  qed
qed

lemma round64_minus: "round64 (- x) = - round64 x"
  by (simp add: round64_def)

lemma round64_nonneg: "0 \<le> x \<Longrightarrow> 0 \<le> round64 x"
  by (simp add: round64_def round_magnitude_nonneg)

lemma round64_mono:
  assumes "x \<le> y"
  shows "round64 x \<le> round64 y"
proof (cases "0 < x")
  case True
  with assms round_magnitude_mono[OF True assms] show ?thesis
    by (simp add: round64_def)
next
  case nx: False
  show ?thesis
  proof (cases "y < 0")
    case True
    with assms have "0 < - y" "- y \<le> - x" by simp_all
    from round_magnitude_mono[OF this] True assms show ?thesis
      by (simp add: round64_def)
  next
    case False
    then have "0 \<le> round64 y" by (simp add: round64_nonneg)
    moreover from nx have "0 \<le> round64 (- x)" by (simp add: round64_nonneg)
    then have "round64 x \<le> 0" by (simp add: round64_minus)
    ultimately show ?thesis by linarith
  qed
qed

lemma round64_exact:
  assumes rep: "x = of_int m * 2 powi j" and m: "\<bar>m\<bar> < 2 ^ 53" and j: "- 1074 \<le> j"
  shows "round64 x = x"
proof -
  have pos: "round_magnitude z = z"
    if z: "0 < z" and r: "z = of_int n * 2 powi j" and n: "n < 2 ^ 53" for z n
  proof -
    from n have "real_of_int n < real_of_int (2 ^ 53)" by (simp only: of_int_less_iff)
    then have "real_of_int n * 2 powi j < 2 ^ 53 * 2 powi j"
      by (simp add: mult_strict_right_mono)
    then have "z < 2 powi (j + 53)" by (simp only: r two_powi_53)
    from round_magnitude_exact[OF z r this j] show ?thesis .
  qed
  show ?thesis
  proof (cases "0 < x")
    case True
    from m have "m < 2 ^ 53" by simp
    from pos[OF True rep this] True show ?thesis by (simp add: round64_def)
  next
    case False
    show ?thesis
    proof (cases "x = 0")
      case True
      then show ?thesis by (simp add: round64_def)
    next
      case nz: False
      with False have neg: "0 < - x" by simp
      from rep have r: "- x = of_int (- m) * 2 powi j" by simp
      from m have "- m < 2 ^ 53" by simp
      from pos[OF neg r this] neg show ?thesis by (simp add: round64_def)
    qed
  qed
qed

lemma round64_zero: "round64 0 = 0"
  by (simp add: round64_def)

lemma round_magnitude_fixed:
  assumes x: "0 < x"
  shows "round64 (round_magnitude x) = round_magnitude x"
proof -
  define e where "e = max (ilog2 x - 52) (- 1074)"
  define M where "M = round_half_even (x / 2 powi e)"
  have r: "round_magnitude x = of_int M * 2 powi e"
    by (simp add: round_magnitude_def Let_def e_def M_def)
  have e: "- 1074 \<le> e" by (simp add: e_def)
  from scaled_upper[OF x] have "x / 2 powi e \<le> of_int (2 ^ 53)" by (simp add: e_def)
  from round_half_even_mono[OF this] have up: "M \<le> 2 ^ 53"
    by (simp only: M_def round_half_even_of_int)
  from x have "of_int 0 \<le> x / 2 powi e" by simp
  from round_half_even_mono[OF this] have lo: "0 \<le> M"
    by (simp only: M_def round_half_even_of_int)
  show ?thesis
  proof (cases "M = 2 ^ 53")
    case True
    have "round_magnitude x = 2 ^ 53 * 2 powi e" by (simp add: r True)
    also have "\<dots> = 2 ^ 52 * 2 powi (e + 1)" by (simp add: power_int_add)
    also have "\<dots> = of_int (2 ^ 52) * 2 powi (e + 1)" by simp
    finally have r': "round_magnitude x = of_int (2 ^ 52) * 2 powi (e + 1)" .
    from e have "- 1074 \<le> e + 1" by simp
    from round64_exact[OF r' _ this] show ?thesis by simp
  next
    case False
    with up lo have "\<bar>M\<bar> < 2 ^ 53" by simp
    from round64_exact[OF r this e] show ?thesis .
  qed
qed

lemma round64_idem: "round64 (round64 x) = round64 x"
proof (cases "0 < x")
  case True
  with round_magnitude_fixed[OF True] show ?thesis by (simp add: round64_def)
next
  case False
  show ?thesis
  proof (cases "x = 0")
    case True
    then show ?thesis by (simp add: round64_def)
  next
    case nz: False
    with False have neg: "0 < - x" by simp
    from round_magnitude_fixed[OF neg] have "round64 (- round_magnitude (- x)) = - round_magnitude (- x)"
      by (simp only: round64_minus)
    with neg show ?thesis by (simp add: round64_def)
  qed
qed

lemma round64_half:
  assumes big: "2 powi (- 1021) \<le> x"
  shows "round64 (x / 2) = round64 x / 2"
proof -
  have "(0::real) < 2 powi (- 1021)" by simp
  with big have x: "0 < x" by linarith
  define k where "k = ilog2 x"
  from ilog2_bounds[OF x] have lo: "2 powi k \<le> x" and hi: "x < 2 powi (k + 1)"
    by (simp_all add: k_def)
  from big hi have "(2::real) powi (- 1021) < 2 powi (k + 1)" by linarith
  then have k: "- 1021 \<le> k" using two_powi_less_cancel[of "- 1021" "k + 1"] by simp
  have p: "(2::real) powi k = 2 * 2 powi (k - 1)"
    using power_int_add[of "2::real" 1 "k - 1"] by simp
  have p1: "(2::real) powi (k + 1) = 2 * 2 powi k"
    using power_int_add[of "2::real" 1 k] by (simp add: add.commute)
  from lo p have lo2: "2 powi (k - 1) \<le> x / 2" by simp
  from hi p1 have hi2: "x / 2 < 2 powi (k - 1 + 1)" by simp
  from x have x2: "0 < x / 2" by simp
  from ilog2_unique[OF x2 lo2 hi2] have k2: "ilog2 (x / 2) = k - 1" .
  define e where "e = k - 52"
  from k have ex: "max (ilog2 x - 52) (- 1074) = e" by (simp add: k_def e_def)
  from k have ex2: "max (ilog2 (x / 2) - 52) (- 1074) = e - 1" by (simp add: k2 e_def)
  have pe: "(2::real) powi e = 2 * 2 powi (e - 1)"
    using power_int_add[of "2::real" 1 "e - 1"] by simp
  have q: "x / 2 / 2 powi (e - 1) = x / 2 powi e"
    by (simp add: pe)
  have "round_magnitude (x / 2) = of_int (round_half_even (x / 2 / 2 powi (e - 1))) * 2 powi (e - 1)"
    by (simp add: round_magnitude_def Let_def ex2)
  also have "\<dots> = of_int (round_half_even (x / 2 powi e)) * 2 powi (e - 1)"
    by (simp only: q)
  also have "\<dots> = of_int (round_half_even (x / 2 powi e)) * 2 powi e / 2"
    by (simp add: pe)
  also have "\<dots> = round_magnitude x / 2"
    by (simp add: round_magnitude_def Let_def ex)
  finally show ?thesis using x x2 by (simp add: round64_def)
qed

lemma round64_nearest:
  assumes x: "0 < x" and lo: "2 powi k \<le> x" and hi: "x < 2 powi (k + 1)"
    and m1: "of_int m - 1 / 2 < x / 2 powi (max (k - 52) (- 1074))"
    and m2: "x / 2 powi (max (k - 52) (- 1074)) < of_int m + 1 / 2"
  shows "round64 x = of_int m * 2 powi (max (k - 52) (- 1074))"
proof -
  from ilog2_unique[OF x lo hi] have "ilog2 x = k" .
  with round_half_even_nearest[OF m1 m2] x show ?thesis
    by (simp add: round64_def round_magnitude_def Let_def)
qed

section \<open>Auxiliary facts\<close>

lemma dlt_Fin: "dlt a b \<Longrightarrow> \<exists>x y. a = Fin x \<and> b = Fin y \<and> x < y"
  by (cases a; cases b) simp_all

lemma dle_Fin: "dle a b \<Longrightarrow> \<exists>x y. a = Fin x \<and> b = Fin y \<and> x \<le> y"
  by (cases a; cases b) simp_all

lemma ascending_Fin:
  assumes "ascending cfg"
  obtains a b c d e where
    "off_threshold cfg = Fin a" "low_threshold cfg = Fin b" "medium_threshold cfg = Fin c"
    "high_threshold cfg = Fin d" "full_threshold cfg = Fin e"
    "a < b" "b < c" "c < d" "d < e"
proof -
  from assms have 1: "dlt (off_threshold cfg) (low_threshold cfg)"
    and 2: "dlt (low_threshold cfg) (medium_threshold cfg)"
    and 3: "dlt (medium_threshold cfg) (high_threshold cfg)"
    and 4: "dlt (high_threshold cfg) (full_threshold cfg)"
    by (simp_all add: ascending_def)
  from dlt_Fin[OF 1] dlt_Fin[OF 2] dlt_Fin[OF 3] dlt_Fin[OF 4] that show thesis
    by auto
qed

lemma ascending_example: "ascending example_config"
  by (simp add: ascending_def example_config_def)

lemma setFanSpeed_running: "running (fst (snd (setFanSpeed cfg st env speed))) = running st"
  by (simp add: setFanSpeed_def split: prod.splits)

lemma iteration_state:
  "fst (iteration cfg st env) =
     (let temp = measured cfg env;
          target = determineTargetSpeed cfg temp
      in if \<not> isnan temp \<and> checkHysteresis cfg st temp target \<and> target \<noteq> current_fan_speed st
         then (if fst (setFanSpeed cfg st (fan_write env) target)
               then fst (snd (setFanSpeed cfg st (fan_write env) target))
               else (fst (snd (setFanSpeed cfg st (fan_write env) target)))
                      \<lparr>current_fan_speed := fst (readFanSpeed cfg (fan_resync env))\<rparr>)
         else st)"
  by (simp add: iteration_def measured_def Let_def split: prod.splits)

lemma iteration_running: "running (fst (iteration cfg st env)) = running st"
  by (simp add: iteration_state Let_def setFanSpeed_running)

lemma iteration_not_admitted:
  "\<not> (checkHysteresis cfg st (measured cfg env) (determineTargetSpeed cfg (measured cfg env))
       \<and> determineTargetSpeed cfg (measured cfg env) \<noteq> current_fan_speed st)
   \<Longrightarrow> fst (iteration cfg st env) = st"
  by (auto simp add: iteration_state Let_def)

text \<open>Numbers that are binary64 numbers, and the doubles nearest to some that are not.\<close>

lemma round64_57: "round64 57 = 57"
  using round64_exact[of 57 57 0] by simp

lemma round64_60: "round64 60 = 60"
  using round64_exact[of 60 60 0] by simp

lemma round64_115: "round64 115 = 115"
  using round64_exact[of 115 115 0] by simp

lemma round64_120: "round64 120 = 120"
  using round64_exact[of 120 120 0] by simp

lemma round64_150: "round64 150 = 150"
  using round64_exact[of 150 150 0] by simp

lemma round64_115_2: "round64 (115 / 2) = 115 / 2"
  using round64_exact[of "115 / 2" 115 "- 1"] by simp

lemma round64_541_10: "round64 (541 / 10) = 7613898120023245 / 140737488355328"
  using round64_nearest[of "541 / 10" 5 7613898120023245] by simp

lemma round64_2_5: "round64 (2 / 5) = 3602879701896397 / 9007199254740992"
  using round64_nearest[of "2 / 5" "- 2" 7205759403792794] by simp

lemma round64_537_10: "round64 (537 / 10) = 3778801562340557 / 70368744177664"
  using round64_nearest[of "537 / 10" 5 7557603124681114] by simp

lemma round64_54_1_minus_0_4:
  "round64 (483686599979591283 / 9007199254740992) = 3778801562340557 / 70368744177664"
  using round64_nearest[of "483686599979591283 / 9007199254740992" 5 7557603124681114] by simp

lemma round64_1_10: "round64 (1 / 10) = 3602879701896397 / 36028797018963968"
  using round64_nearest[of "1 / 10" "- 4" 7205759403792794] by simp

lemma round64_589_10: "round64 (589 / 10) = 8289438064128819 / 140737488355328"
  using round64_nearest[of "589 / 10" 5 8289438064128819] by simp

lemma round64_59_minus_0_1:
  "round64 (2122096144416977715 / 36028797018963968) = 8289438064128819 / 140737488355328"
  using round64_nearest[of "2122096144416977715 / 36028797018963968" 5 8289438064128819] by simp

text \<open>The range test of \<^verbatim>\<open>readTemperatureSensor\<close> on the rounded quotient.\<close>

lemma round64_le_150: "x \<le> 150 \<Longrightarrow> round64 x \<le> 150"
  using round64_mono[of x 150] by (simp add: round64_150)

lemma round64_gt_150:
  assumes "150001 / 1000 \<le> x"
  shows "150 < round64 x"
proof -
  have c: "round64 (153601 / 1024) = 153601 / 1024"
    using round64_exact[of "153601 / 1024" 153601 "- 10"] by simp
  from assms have "153601 / 1024 \<le> x" by simp
  from round64_mono[OF this] c show ?thesis by simp
qed

lemma temp_celsius_range:
  assumes "0 \<le> v"
  shows "\<not> round64 (real_of_int v / 1000) < - 50"
    and "(150 < round64 (real_of_int v / 1000)) = (150 < real_of_int v / 1000)"
proof -
  from assms have "0 \<le> real_of_int v / 1000" by simp
  from round64_nonneg[OF this] show "\<not> round64 (real_of_int v / 1000) < - 50" by simp
  show "(150 < round64 (real_of_int v / 1000)) = (150 < real_of_int v / 1000)"
  proof (cases "v \<le> 150000")
    case True
    then have "real_of_int v / 1000 \<le> 150" by simp
    with round64_le_150[OF this] show ?thesis by simp
  next
    case False
    then have "150001 \<le> v" by simp
    then have "real_of_int 150001 \<le> real_of_int v" by (simp only: of_int_le_iff)
    then have "150001 / 1000 \<le> real_of_int v / 1000" by simp
    from round64_gt_150[OF this] this show ?thesis by simp
  qed
qed

text \<open>
  The mean of two readings with the same value is that value: the sum and the halving
  are exact.
\<close>

lemma mean_of_equal:
  assumes fixed: "round64 a = a" and big: "2 powi (- 1021) \<le> a"
  shows "round64 (round64 (round64 (0 + a) + a) / 2) = a"
proof -
  have "(2::real) powi (- 1021) > 0" by simp
  with big have "2 powi (- 1021) \<le> a + a" by linarith
  from round64_half[OF this] fixed have "round64 (a + a) = a + a" by simp
  with fixed show ?thesis by simp
qed

lemma stoi_57500: "stoi ''57500'' = Inr 57500"
  by (simp add: stoi_def isspace_def isdigit_def)

lemma stoi_53700: "stoi ''53700'' = Inr 53700"
  by (simp add: stoi_def isspace_def isdigit_def)

lemma read_57500: "readTemperatureSensor cfg path (Contents ''57500'') = (Fin 57.5, [])"
  by (simp add: readTemperatureSensor_def getline_def stoi_57500 round64_115_2)

lemma read_53700:
  "readTemperatureSensor cfg path (Contents ''53700'')
     = (Fin (3778801562340557 / 70368744177664), [])"
  by (simp add: readTemperatureSensor_def getline_def stoi_53700 round64_537_10)

lemma measured_same:
  assumes paths: "temp_hwmon0_path cfg \<noteq> []" "temp_hwmon1_path cfg \<noteq> []"
    and read: "\<And>path. readTemperatureSensor cfg path (Contents millis) = (Fin a, [])"
    and fixed: "round64 a = a" and big: "2 powi (- 1021) \<le> a"
  shows "measured cfg (example_tick millis dev) = Fin a"
  using paths mean_of_equal[OF fixed big]
  by (simp add: measured_def example_tick_def getAverageTemperature_def readSlot_def read)

lemma measured_57500: "measured example_config (example_tick ''57500'' dev) = Fin 57.5"
proof -
  have "(2::real) powi (- 1021) \<le> 2 powi 0" by (rule two_powi_mono) simp
  then have big: "(2::real) powi (- 1021) \<le> 115 / 2" by simp
  have "measured example_config (example_tick ''57500'' dev) = Fin (115 / 2)"
    by (rule measured_same[where a = "115 / 2"])
       (simp_all add: example_config_def read_57500 round64_115_2 big)
  then show ?thesis by simp
qed

lemma measured_53700:
  "measured config_54_1 (example_tick ''53700'' dev) = Fin (3778801562340557 / 70368744177664)"
proof -
  have "(2::real) powi (- 1021) \<le> 2 powi 0" by (rule two_powi_mono) simp
  then have big: "(2::real) powi (- 1021) \<le> 3778801562340557 / 70368744177664" by simp
  have fixed: "round64 (3778801562340557 / 70368744177664) = 3778801562340557 / 70368744177664"
    using round64_idem[of "537 / 10"] by (simp add: round64_537_10)
  show ?thesis
    by (rule measured_same[where a = "3778801562340557 / 70368744177664"])
       (simp_all add: config_54_1_def example_config_def read_53700 fixed big)
qed

section \<open>Properties of the speed policy\<close>

text \<open>
  C1. With a positive hysteresis and a target below the current speed, \<^verbatim>\<open>checkHysteresis\<close>
  admits exactly when the temperature is at most the boundary of the target minus the
  hysteresis, where the boundary is the low threshold for OFF, the medium threshold for
  LOW, the high threshold for MEDIUM and the full threshold for HIGH and FULL. With the
  thresholds 53, 54, 59, 64, 70 and hysteresis 2, at MEDIUM and 57.5 degrees the target
  is LOW, it is not admitted, and a tick that measures 57.5 leaves the speed at MEDIUM.
  The difference is the rounded one of the program: with the low threshold 54.1 and the
  hysteresis 0.4, at LOW and with both sensors at 53700 the target OFF is admitted, the
  temperature being the very double that \<^verbatim>\<open>54.1 - 0.4\<close> gives.
\<close>

theorem checkHysteresis_decrease:
  "(dlt (Fin 0) (hysteresis cfg) \<and> speed_value target < speed_value (current_fan_speed st)
      \<longrightarrow> checkHysteresis cfg st temperature target =
            dle temperature
              (dsub (case target of OFF \<Rightarrow> low_threshold cfg | LOW \<Rightarrow> medium_threshold cfg
                     | MEDIUM \<Rightarrow> high_threshold cfg | HIGH \<Rightarrow> full_threshold cfg
                     | FULL \<Rightarrow> full_threshold cfg)
                    (hysteresis cfg)))
   \<and> determineTargetSpeed example_config (Fin 57.5) = LOW
   \<and> \<not> checkHysteresis example_config \<lparr>current_fan_speed = MEDIUM, running = r\<rparr> (Fin 57.5) LOW
   \<and> (measured example_config env = Fin 57.5
        \<longrightarrow> fst (iteration example_config \<lparr>current_fan_speed = MEDIUM, running = r\<rparr> env)
              = \<lparr>current_fan_speed = MEDIUM, running = r\<rparr>)
   \<and> determineTargetSpeed config_54_1 (measured config_54_1 (example_tick ''53700'' dev)) = OFF
   \<and> dsub (low_threshold config_54_1) (hysteresis config_54_1)
       = measured config_54_1 (example_tick ''53700'' dev)
   \<and> checkHysteresis config_54_1 \<lparr>current_fan_speed = LOW, running = r\<rparr>
        (measured config_54_1 (example_tick ''53700'' dev)) OFF"
proof (intro conjI impI)
  assume a: "dlt (Fin 0) (hysteresis cfg) \<and> speed_value target < speed_value (current_fan_speed st)"
  from a dlt_Fin[of "Fin 0" "hysteresis cfg"] obtain y where y: "hysteresis cfg = Fin y" "0 < y"
    by auto
  then have "\<not> dle (hysteresis cfg) (Fin 0)" by simp
  with a show "checkHysteresis cfg st temperature target =
            dle temperature
              (dsub (case target of OFF \<Rightarrow> low_threshold cfg | LOW \<Rightarrow> medium_threshold cfg
                     | MEDIUM \<Rightarrow> high_threshold cfg | HIGH \<Rightarrow> full_threshold cfg
                     | FULL \<Rightarrow> full_threshold cfg)
                    (hysteresis cfg))"
    by (cases target) (simp_all add: checkHysteresis_def)
next
  show t: "determineTargetSpeed example_config (Fin 57.5) = LOW"
    by (simp add: determineTargetSpeed_def example_config_def)
  show n: "\<not> checkHysteresis example_config \<lparr>current_fan_speed = MEDIUM, running = r\<rparr> (Fin 57.5) LOW"
    by (simp add: checkHysteresis_def example_config_def round64_57)
  show "determineTargetSpeed config_54_1 (measured config_54_1 (example_tick ''53700'' dev)) = OFF"
    by (simp add: measured_53700)
       (simp add: determineTargetSpeed_def config_54_1_def example_config_def decimal_def
          round64_541_10)
  show d: "dsub (low_threshold config_54_1) (hysteresis config_54_1)
       = measured config_54_1 (example_tick ''53700'' dev)"
    by (simp add: measured_53700)
       (simp add: config_54_1_def example_config_def decimal_def round64_541_10 round64_2_5
          round64_54_1_minus_0_4)
  show "checkHysteresis config_54_1 \<lparr>current_fan_speed = LOW, running = r\<rparr>
        (measured config_54_1 (example_tick ''53700'' dev)) OFF"
    by (simp add: checkHysteresis_def d measured_53700)
next
  assume "measured example_config env = Fin 57.5"
  moreover have "determineTargetSpeed example_config (Fin 57.5) = LOW"
    by (simp add: determineTargetSpeed_def example_config_def)
  moreover have "\<not> checkHysteresis example_config \<lparr>current_fan_speed = MEDIUM, running = r\<rparr> (Fin 57.5) LOW"
    by (simp add: checkHysteresis_def example_config_def round64_57)
  ultimately show "fst (iteration example_config \<lparr>current_fan_speed = MEDIUM, running = r\<rparr> env)
              = \<lparr>current_fan_speed = MEDIUM, running = r\<rparr>"
    by (simp add: iteration_not_admitted)
qed

theorem checkHysteresis_decrease_witness:
  "dlt (Fin 0) (hysteresis example_config)
   \<and> speed_value LOW < speed_value (current_fan_speed \<lparr>current_fan_speed = MEDIUM, running = True\<rparr>)
   \<and> measured example_config
        (example_tick ''57500'' ''1'') = Fin 57.5
   \<and> checkHysteresis example_config \<lparr>current_fan_speed = MEDIUM, running = True\<rparr> (Fin 57.5) LOW
       = dle (Fin 57.5) (dsub (medium_threshold example_config) (hysteresis example_config))
   \<and> fst (iteration example_config \<lparr>current_fan_speed = MEDIUM, running = True\<rparr>
        (example_tick ''57500'' ''1'')) = \<lparr>current_fan_speed = MEDIUM, running = True\<rparr>"
  using checkHysteresis_decrease [where cfg = example_config and target = LOW
      and st = "\<lparr>current_fan_speed = MEDIUM, running = True\<rparr>"
      and temperature = "Fin 57.5" and r = True
      and env = "example_tick ''57500'' ''1''" and dev = "''0''"]
  by (simp add: measured_57500) (simp add: example_config_def round64_57)

text \<open>
  C3. Whatever the configuration (so whatever the hysteresis, NaN included) and whatever
  the temperature, a target above the current speed is admitted.
\<close>

theorem checkHysteresis_increase:
  "speed_value target > speed_value (current_fan_speed st)
   \<Longrightarrow> checkHysteresis cfg st temperature target"
  by (simp add: checkHysteresis_def)

theorem checkHysteresis_increase_witness:
  "speed_value FULL > speed_value (current_fan_speed \<lparr>current_fan_speed = LOW, running = True\<rparr>)
   \<and> checkHysteresis (example_config\<lparr>hysteresis := Fin 100\<rparr>)
        \<lparr>current_fan_speed = LOW, running = True\<rparr> (Fin 70) FULL"
  using checkHysteresis_increase [of "\<lparr>current_fan_speed = LOW, running = True\<rparr>" FULL
      "example_config\<lparr>hysteresis := Fin 100\<rparr>" "Fin 70"]
  by simp

text \<open>
  C4. With strictly increasing thresholds, \<^verbatim>\<open>determineTargetSpeed\<close> does not decrease
  when the temperature increases, its value is one of the five levels, and each level
  is returned on exactly its band: FULL from the full threshold on, HIGH from the high
  threshold up to the full one, and so on down to OFF below the low threshold.
\<close>

theorem determineTargetSpeed_monotone:
  assumes "ascending cfg"
  shows "(dle t1 t2 \<longrightarrow>
            speed_value (determineTargetSpeed cfg t1) \<le> speed_value (determineTargetSpeed cfg t2))
         \<and> determineTargetSpeed cfg t \<in> {OFF, LOW, MEDIUM, HIGH, FULL}
         \<and> (determineTargetSpeed cfg t = FULL) = dge t (full_threshold cfg)
         \<and> (determineTargetSpeed cfg t = HIGH)
             = (dge t (high_threshold cfg) \<and> \<not> dge t (full_threshold cfg))
         \<and> (determineTargetSpeed cfg t = MEDIUM)
             = (dge t (medium_threshold cfg) \<and> \<not> dge t (high_threshold cfg))
         \<and> (determineTargetSpeed cfg t = LOW)
             = (dge t (low_threshold cfg) \<and> \<not> dge t (medium_threshold cfg))
         \<and> (determineTargetSpeed cfg t = OFF) = (\<not> dge t (low_threshold cfg))"
proof -
  from assms obtain a b c d e where
    th: "off_threshold cfg = Fin a" "low_threshold cfg = Fin b" "medium_threshold cfg = Fin c"
    "high_threshold cfg = Fin d" "full_threshold cfg = Fin e"
    "a < b" "b < c" "c < d" "d < e" by (rule ascending_Fin)
  have mono: "speed_value (determineTargetSpeed cfg t1) \<le> speed_value (determineTargetSpeed cfg t2)"
    if le: "dle t1 t2"
  proof -
    from dle_Fin[OF le] obtain x y where xy: "t1 = Fin x" "t2 = Fin y" "x \<le> y" by auto
    have ge: "dge (Fin x) q \<Longrightarrow> dge (Fin y) q" for q
      using xy(3) by (cases q) simp_all
    show ?thesis
      unfolding xy determineTargetSpeed_def using ge by auto
  qed
  have level: "determineTargetSpeed cfg t \<in> {OFF, LOW, MEDIUM, HIGH, FULL}"
    by (cases "determineTargetSpeed cfg t") simp_all
  have full: "(determineTargetSpeed cfg t = FULL) = dge t (full_threshold cfg)"
    by (simp add: determineTargetSpeed_def)
  have high: "(determineTargetSpeed cfg t = HIGH)
             = (dge t (high_threshold cfg) \<and> \<not> dge t (full_threshold cfg))"
    by (simp add: determineTargetSpeed_def)
  have medium: "(determineTargetSpeed cfg t = MEDIUM)
             = (dge t (medium_threshold cfg) \<and> \<not> dge t (high_threshold cfg))"
    using th by (cases t) (auto simp add: determineTargetSpeed_def)
  have low: "(determineTargetSpeed cfg t = LOW)
             = (dge t (low_threshold cfg) \<and> \<not> dge t (medium_threshold cfg))"
    using th by (cases t) (auto simp add: determineTargetSpeed_def)
  have off: "(determineTargetSpeed cfg t = OFF) = (\<not> dge t (low_threshold cfg))"
    using th by (cases t) (auto simp add: determineTargetSpeed_def)
  from mono level full high medium low off show ?thesis by blast
qed

theorem determineTargetSpeed_monotone_witness:
  "ascending example_config \<and> dle (Fin 56) (Fin 61)
   \<and> speed_value (determineTargetSpeed example_config (Fin 56))
       \<le> speed_value (determineTargetSpeed example_config (Fin 61))
   \<and> determineTargetSpeed example_config (Fin 56) = LOW
   \<and> determineTargetSpeed example_config (Fin 61) = MEDIUM"
  using determineTargetSpeed_monotone [OF ascending_example, of "Fin 56" "Fin 61" "Fin 61"]
    determineTargetSpeed_monotone [OF ascending_example, of "Fin 56" "Fin 61" "Fin 56"]
  by (simp add: ascending_example) (simp add: example_config_def)

lemma stoi_58900: "stoi ''58900'' = Inr 58900"
  by (simp add: stoi_def isspace_def isdigit_def)

lemma stoi_1: "stoi ''1'' = Inr 1"
  by (simp add: stoi_def isspace_def isdigit_def)

lemma readFanSpeed_1: "readFanSpeed cfg (Contents ''1'') = (LOW, [])"
  by (simp add: readFanSpeed_def getline_def stoi_1 speed_of_int_def)

lemma read_58900:
  "readTemperatureSensor cfg path (Contents ''58900'')
     = (Fin (8289438064128819 / 140737488355328), [])"
  by (simp add: readTemperatureSensor_def getline_def stoi_58900 round64_589_10)

lemma measured_58900:
  "measured config_0_1 (example_tick ''58900'' dev) = Fin (8289438064128819 / 140737488355328)"
proof -
  have "(2::real) powi (- 1021) \<le> 2 powi 0" by (rule two_powi_mono) simp
  then have big: "(2::real) powi (- 1021) \<le> 8289438064128819 / 140737488355328" by simp
  have fixed: "round64 (8289438064128819 / 140737488355328) = 8289438064128819 / 140737488355328"
    using round64_idem[of "589 / 10"] by (simp add: round64_589_10)
  show ?thesis
    by (rule measured_same[where a = "8289438064128819 / 140737488355328"])
       (simp_all add: config_0_1_def example_config_def read_58900 fixed big)
qed

text \<open>
  C2. With strictly increasing thresholds, the entry boundary of the current speed being
  a double, at a temperature strictly between that boundary minus the hysteresis and the
  boundary, the target that
  \<^verbatim>\<open>determineTargetSpeed\<close> computes is never both admitted by \<^verbatim>\<open>checkHysteresis\<close> and different
  from the current speed; so any sequence of ticks that all measure such temperatures
  leaves the controller as it was. The lower end of the band is the double that the
  program computes: with hysteresis 0.1, at MEDIUM and with both sensors at 58900, the
  temperature is that very double, it lies outside the band, and the tick goes to LOW.
\<close>

theorem hysteresis_band_keeps_speed:
  assumes asc: "ascending cfg" and dbl: "binary64 (entry_threshold cfg (current_fan_speed st))"
  shows "(in_band cfg (entry_threshold cfg (current_fan_speed st)) t
            \<longrightarrow> \<not> (checkHysteresis cfg st t (determineTargetSpeed cfg t)
                    \<and> determineTargetSpeed cfg t \<noteq> current_fan_speed st))
         \<and> ((\<forall>env \<in> set envs.
                in_band cfg (entry_threshold cfg (current_fan_speed st)) (measured cfg env))
            \<longrightarrow> iterations cfg st envs = st)
         \<and> dsub (entry_threshold config_0_1 MEDIUM) (hysteresis config_0_1)
             = measured config_0_1 (example_tick ''58900'' ''1'')
         \<and> \<not> in_band config_0_1 (entry_threshold config_0_1 MEDIUM)
                 (measured config_0_1 (example_tick ''58900'' ''1''))
         \<and> fst (iteration config_0_1 \<lparr>current_fan_speed = MEDIUM, running = r\<rparr>
                  (example_tick ''58900'' ''1''))
             = \<lparr>current_fan_speed = LOW, running = r\<rparr>"
proof -
  from asc obtain a b c d e where
    th: "off_threshold cfg = Fin a" "low_threshold cfg = Fin b" "medium_threshold cfg = Fin c"
    "high_threshold cfg = Fin d" "full_threshold cfg = Fin e"
    "a < b" "b < c" "c < d" "d < e" by (rule ascending_Fin)
  have decision: "\<not> (checkHysteresis cfg st u (determineTargetSpeed cfg u)
                    \<and> determineTargetSpeed cfg u \<noteq> current_fan_speed st)"
    if band: "in_band cfg (entry_threshold cfg (current_fan_speed st)) u" for u
  proof -
    from band have lo: "dlt (dsub (entry_threshold cfg (current_fan_speed st)) (hysteresis cfg)) u"
      and hi: "dlt u (entry_threshold cfg (current_fan_speed st))"
      by (simp_all add: in_band_def)
    from dlt_Fin[OF hi] obtain x q where
      x: "u = Fin x" "entry_threshold cfg (current_fan_speed st) = Fin q" "x < q"
      by auto
    from dlt_Fin[OF lo] x obtain h where h: "hysteresis cfg = Fin h" "round64 (q - h) < x"
      by (cases "hysteresis cfg") auto
    from dbl x have q: "round64 q = q" by simp
    have pos: "0 < h"
    proof (rule ccontr)
      assume "\<not> 0 < h"
      then have "q \<le> q - h" by simp
      from round64_mono[OF this] q h(2) x(3) show False by simp
    qed
    from th have chain: "round64 (b - h) \<le> round64 (c - h)" "round64 (c - h) \<le> round64 (d - h)"
      "round64 (d - h) \<le> round64 (e - h)"
      by (simp_all add: round64_mono)
    show ?thesis
      using th x h chain pos
      by (cases "current_fan_speed st")
         (auto simp add: determineTargetSpeed_def checkHysteresis_def)
  qed
  have ticks: "iterations cfg st envs = st"
    if "\<forall>env \<in> set envs. in_band cfg (entry_threshold cfg (current_fan_speed st)) (measured cfg env)"
    using that
  proof (induction envs)
    case Nil
    show ?case by simp
  next
    case (Cons env rest)
    then have "in_band cfg (entry_threshold cfg (current_fan_speed st)) (measured cfg env)"
      by simp
    then have "fst (iteration cfg st env) = st"
      by (intro iteration_not_admitted decision)
    with Cons show ?case by simp
  qed
  have edge: "dsub (entry_threshold config_0_1 MEDIUM) (hysteresis config_0_1)
             = measured config_0_1 (example_tick ''58900'' ''1'')"
    by (simp add: measured_58900)
       (simp add: config_0_1_def example_config_def decimal_def round64_1_10 round64_59_minus_0_1)
  have outside: "\<not> in_band config_0_1 (entry_threshold config_0_1 MEDIUM)
                 (measured config_0_1 (example_tick ''58900'' ''1''))"
    using edge by (simp add: in_band_def measured_58900)
  have target: "determineTargetSpeed config_0_1 (measured config_0_1 (example_tick ''58900'' ''1''))
                  = LOW"
    by (simp add: measured_58900)
       (simp add: determineTargetSpeed_def config_0_1_def example_config_def)
  have admit: "checkHysteresis config_0_1 \<lparr>current_fan_speed = MEDIUM, running = r\<rparr>
                 (measured config_0_1 (example_tick ''58900'' ''1'')) LOW"
    using edge by (simp add: checkHysteresis_def measured_58900)
  have written: "setFanSpeed config_0_1 \<lparr>current_fan_speed = MEDIUM, running = r\<rparr>
                 (fan_write (example_tick ''58900'' ''1'')) LOW
               = (True, \<lparr>current_fan_speed = LOW, running = r\<rparr>, [Usleep 100000])"
    by (simp add: setFanSpeed_def verifyFanSpeedWrite_def example_tick_def healthy_write_def
        readFanSpeed_1)
  have dropped: "fst (iteration config_0_1 \<lparr>current_fan_speed = MEDIUM, running = r\<rparr>
                  (example_tick ''58900'' ''1''))
             = \<lparr>current_fan_speed = LOW, running = r\<rparr>"
    using target admit by (simp add: iteration_state Let_def written measured_58900)
  from decision ticks edge outside dropped show ?thesis by blast
qed

theorem hysteresis_band_keeps_speed_witness:
  "ascending example_config
   \<and> binary64 (entry_threshold example_config
                 (current_fan_speed \<lparr>current_fan_speed = MEDIUM, running = True\<rparr>))
   \<and> in_band example_config
        (entry_threshold example_config (current_fan_speed \<lparr>current_fan_speed = MEDIUM, running = True\<rparr>))
        (Fin 57.5)
   \<and> in_band example_config
        (entry_threshold example_config (current_fan_speed \<lparr>current_fan_speed = MEDIUM, running = True\<rparr>))
        (measured example_config (example_tick ''57500'' ''1''))
   \<and> in_band example_config
        (entry_threshold example_config (current_fan_speed \<lparr>current_fan_speed = MEDIUM, running = True\<rparr>))
        (measured example_config (example_tick ''57500'' ''2''))
   \<and> determineTargetSpeed example_config (Fin 57.5) = LOW
   \<and> \<not> checkHysteresis example_config \<lparr>current_fan_speed = MEDIUM, running = True\<rparr> (Fin 57.5) LOW
   \<and> iterations example_config \<lparr>current_fan_speed = MEDIUM, running = True\<rparr>
        [example_tick ''57500'' ''1'', example_tick ''57500'' ''2'']
       = \<lparr>current_fan_speed = MEDIUM, running = True\<rparr>"
proof -
  have dbl: "binary64 (entry_threshold example_config
                 (current_fan_speed \<lparr>current_fan_speed = MEDIUM, running = True\<rparr>))"
    using round64_exact[of 59 59 0] by (simp add: example_config_def)
  have band: "in_band example_config
        (entry_threshold example_config (current_fan_speed \<lparr>current_fan_speed = MEDIUM, running = True\<rparr>))
        (Fin 57.5)"
    by (simp add: in_band_def example_config_def round64_57)
  have target: "determineTargetSpeed example_config (Fin 57.5) = LOW"
    by (simp add: determineTargetSpeed_def example_config_def)
  from hysteresis_band_keeps_speed [OF ascending_example dbl,
      where t = "Fin 57.5"
        and envs = "[example_tick ''57500'' ''1'', example_tick ''57500'' ''2'']"
        and r = True]
  have ticks: "iterations example_config \<lparr>current_fan_speed = MEDIUM, running = True\<rparr>
        [example_tick ''57500'' ''1'', example_tick ''57500'' ''2'']
       = \<lparr>current_fan_speed = MEDIUM, running = True\<rparr>"
    using band by (simp add: measured_57500)
  have admit: "\<not> checkHysteresis example_config \<lparr>current_fan_speed = MEDIUM, running = True\<rparr>
                   (Fin 57.5) LOW"
    by (simp add: checkHysteresis_def example_config_def round64_57)
  from dbl band target admit ticks show ?thesis
    by (simp add: ascending_example measured_57500)
qed

text \<open>
  The same holds below the boundary that \<^verbatim>\<open>getThresholdForSpeed\<close> gives for the current
  speed, the boundary of the next higher speed.
\<close>

lemma next_boundary_band_keeps_speed:
  assumes asc: "ascending cfg"
    and dbl: "binary64 (getThresholdForSpeed cfg (current_fan_speed st))"
    and band: "in_band cfg (getThresholdForSpeed cfg (current_fan_speed st)) t"
  shows "\<not> (checkHysteresis cfg st t (determineTargetSpeed cfg t)
            \<and> determineTargetSpeed cfg t \<noteq> current_fan_speed st)"
proof -
  from asc obtain a b c d e where
    th: "off_threshold cfg = Fin a" "low_threshold cfg = Fin b" "medium_threshold cfg = Fin c"
    "high_threshold cfg = Fin d" "full_threshold cfg = Fin e"
    "a < b" "b < c" "c < d" "d < e" by (rule ascending_Fin)
  from band have lo: "dlt (dsub (getThresholdForSpeed cfg (current_fan_speed st)) (hysteresis cfg)) t"
    and hi: "dlt t (getThresholdForSpeed cfg (current_fan_speed st))"
    by (simp_all add: in_band_def)
  from dlt_Fin[OF hi] obtain x q where
    x: "t = Fin x" "getThresholdForSpeed cfg (current_fan_speed st) = Fin q" "x < q"
    by auto
  from dlt_Fin[OF lo] x obtain h where h: "hysteresis cfg = Fin h" "round64 (q - h) < x"
    by (cases "hysteresis cfg") auto
  from dbl x have q: "round64 q = q" by simp
  have pos: "0 < h"
  proof (rule ccontr)
    assume "\<not> 0 < h"
    then have "q \<le> q - h" by simp
    from round64_mono[OF this] q h(2) x(3) show False by simp
  qed
  from th have chain: "round64 (b - h) \<le> round64 (c - h)" "round64 (c - h) \<le> round64 (d - h)"
    "round64 (d - h) \<le> round64 (e - h)"
    by (simp_all add: round64_mono)
  show ?thesis
    using th x h chain pos
    by (cases "current_fan_speed st")
       (auto simp add: determineTargetSpeed_def checkHysteresis_def)
qed

section \<open>Properties of the temperature acquisition\<close>

lemma readTemperatureSensor_ok_parts:
  "failure_of obs = None \<Longrightarrow>
     \<not> isnan (fst (readTemperatureSensor cfg path obs))
     \<and> snd (readTemperatureSensor cfg path obs) = []"
  by (auto simp add: readTemperatureSensor_def failure_of_def Let_def temp_celsius_range
      split: file_obs.splits option.splits sum.splits if_splits)

lemma readTemperatureSensor_ok:
  assumes "failure_of obs = None"
  shows "\<exists>x. readTemperatureSensor cfg path obs = (Fin x, [])"
proof -
  from readTemperatureSensor_ok_parts[OF assms, of cfg path]
  show ?thesis
    by (cases "readTemperatureSensor cfg path obs"; cases "fst (readTemperatureSensor cfg path obs)")
       auto
qed

lemma readTemperatureSensor_failed:
  "failure_of obs = Some f \<Longrightarrow>
     fst (readTemperatureSensor cfg path obs) = NaN
     \<and> (snd (readTemperatureSensor cfg path obs) \<noteq> [])
         = (debug cfg \<or> f = Unparsable \<or> f = OutOfRange)"
  by (auto simp add: readTemperatureSensor_def failure_of_def logDebug_def Let_def
      temp_celsius_range split: file_obs.splits option.splits sum.splits if_splits)

lemma readSlot_empty: "readSlot cfg [] obs = ([], [], [])"
  by (simp add: readSlot_def)

lemma readSlot_configured:
  "path \<noteq> [] \<Longrightarrow>
   readSlot cfg path obs =
     (case fst (readTemperatureSensor cfg path obs) of
        NaN \<Rightarrow> ([], [path], snd (readTemperatureSensor cfg path obs))
      | Fin x \<Rightarrow> ([Fin x], [], snd (readTemperatureSensor cfg path obs)))"
  by (simp add: readSlot_def split: prod.splits double.splits)

lemma stoi_151000: "stoi ''151000'' = Inr 151000"
  by (simp add: stoi_def isspace_def isdigit_def)

lemma stoi_60000: "stoi ''60000'' = Inr 60000"
  by (simp add: stoi_def isspace_def isdigit_def)

lemma read_60000: "readTemperatureSensor cfg path (Contents ''60000'') = (Fin 60, [])"
  by (simp add: readTemperatureSensor_def getline_def stoi_60000 round64_60)

lemma round64_235_4: "round64 (235 / 4) = 235 / 4"
  using round64_exact[of "235 / 4" 235 "- 2"] by simp

text \<open>
  A valid reading is a double, and it is zero or at least \<open>2 ^ - 10\<close>: it is the rounded
  quotient of a natural number by 1000.
\<close>

lemma reading_shape:
  assumes "fst (readTemperatureSensor cfg path obs) = Fin a"
  shows "round64 a = a \<and> (a = 0 \<or> 2 powi (- 10) \<le> a)"
proof -
  from assms have "\<exists>v. 0 \<le> v \<and> a = round64 (real_of_int v / 1000)"
    by (fastforce simp add: readTemperatureSensor_def Let_def not_less
        split: file_obs.splits option.splits sum.splits if_splits)
  then obtain v where v: "0 \<le> v" and a: "a = round64 (real_of_int v / 1000)"
    by blast
  have fixed: "round64 a = a" by (simp add: a round64_idem)
  have "a = 0 \<or> 2 powi (- 10) \<le> a"
  proof (cases "v = 0")
    case True
    then show ?thesis by (simp add: a round64_zero)
  next
    case False
    with v have "1 \<le> v" by simp
    then have "real_of_int 1 \<le> real_of_int v" by (simp only: of_int_le_iff)
    then have "1 / 1024 \<le> real_of_int v / 1000" by simp
    from round64_mono[OF this] have "round64 (1 / 1024) \<le> a" by (simp add: a)
    moreover have "round64 (1 / 1024) = 1 / 1024"
      using round64_exact[of "1 / 1024" 1 "- 10"] by simp
    ultimately show ?thesis by simp
  qed
  with fixed show ?thesis ..
qed

text \<open>
  Halving the rounded sum of two valid readings gives the double nearest to their mean:
  the halving is exact.
\<close>

lemma mean_of_two:
  assumes a: "a = 0 \<or> 2 powi (- 10) \<le> a" and b: "b = 0 \<or> 2 powi (- 10) \<le> b"
  shows "round64 (round64 (a + b) / 2) = round64 ((a + b) / 2)"
proof (cases "a + b = 0")
  case True
  then show ?thesis by (simp add: round64_zero)
next
  case False
  have p: "(0::real) < 2 powi (- 10)" by simp
  have "(2::real) powi (- 1021) \<le> 2 powi (- 10)" by (rule two_powi_mono) simp
  with a b False p have big: "2 powi (- 1021) \<le> a + b" by linarith
  have e: "round64 (2 powi (- 1021)) = 2 powi (- 1021)"
    using round64_exact[of "2 powi (- 1021)" 1 "- 1021"] by simp
  from round64_mono[OF big] e have big': "2 powi (- 1021) \<le> round64 (a + b)" by simp
  from round64_half[OF big'] round64_half[OF big] show ?thesis
    by (simp add: round64_idem)
qed

text \<open>
  C5. \<^verbatim>\<open>getAverageTemperature\<close> returns the arithmetic mean of the valid readings of the
  configured slots, as the double nearest to it, and NaN, the marker for no temperature,
  when there is none. A slot
  with an empty path is not read: it adds no reading, no failed sensor and no output,
  while a configured slot is recorded as failed exactly when its reading is NaN.
\<close>

theorem getAverageTemperature_mean:
  "fst (getAverageTemperature cfg obs0 obs1) = spec_aggregate (configured_readings cfg obs0 obs1)
   \<and> (valid_values (configured_readings cfg obs0 obs1) = []
        \<longrightarrow> isnan (fst (getAverageTemperature cfg obs0 obs1)))
   \<and> (valid_values (configured_readings cfg obs0 obs1) \<noteq> []
        \<longrightarrow> \<not> isnan (fst (getAverageTemperature cfg obs0 obs1)))
   \<and> readSlot cfg [] obs = ([], [], [])
   \<and> (path \<noteq> [] \<longrightarrow>
        fst (snd (readSlot cfg path obs))
          = (if isnan (fst (readTemperatureSensor cfg path obs)) then [path] else []))"
proof -
  have mean: "fst (getAverageTemperature cfg obs0 obs1)
                = spec_aggregate (configured_readings cfg obs0 obs1)"
  proof (cases "temp_hwmon0_path cfg = []")
    case e0: True
    show ?thesis
    proof (cases "temp_hwmon1_path cfg = []")
      case True
      with e0 show ?thesis
        by (simp add: getAverageTemperature_def readSlot_empty configured_readings_def
            spec_aggregate_def)
    next
      case False
      with e0 show ?thesis
        by (simp add: getAverageTemperature_def readSlot_empty readSlot_configured
            configured_readings_def spec_aggregate_def round64_idem split: double.splits)
    qed
  next
    case c0: False
    show ?thesis
    proof (cases "temp_hwmon1_path cfg = []")
      case True
      with c0 show ?thesis
        by (simp add: getAverageTemperature_def readSlot_empty readSlot_configured
            configured_readings_def spec_aggregate_def round64_idem split: double.splits)
    next
      case c1: False
      show ?thesis
      proof (cases "fst (readTemperatureSensor cfg (temp_hwmon0_path cfg) obs0)")
        case NaN
        with c0 c1 show ?thesis
          by (simp add: getAverageTemperature_def readSlot_configured
              configured_readings_def spec_aggregate_def round64_idem split: double.splits)
      next
        case r0: (Fin a)
        show ?thesis
        proof (cases "fst (readTemperatureSensor cfg (temp_hwmon1_path cfg) obs1)")
          case NaN
          with c0 c1 r0 show ?thesis
            by (simp add: getAverageTemperature_def readSlot_configured
                configured_readings_def spec_aggregate_def round64_idem)
        next
          case r1: (Fin b)
          from reading_shape[OF r0] have fa: "round64 a = a" and sa: "a = 0 \<or> 2 powi (- 10) \<le> a"
            by simp_all
          from reading_shape[OF r1] have sb: "b = 0 \<or> 2 powi (- 10) \<le> b"
            by simp
          from c0 c1 r0 r1 mean_of_two[OF sa sb] show ?thesis
            by (simp add: getAverageTemperature_def readSlot_configured
                configured_readings_def spec_aggregate_def fa)
        qed
      qed
    qed
  qed
  have none: "isnan (fst (getAverageTemperature cfg obs0 obs1))"
    if "valid_values (configured_readings cfg obs0 obs1) = []"
    using that by (simp add: mean spec_aggregate_def)
  have some: "\<not> isnan (fst (getAverageTemperature cfg obs0 obs1))"
    if "valid_values (configured_readings cfg obs0 obs1) \<noteq> []"
    using that by (simp add: mean spec_aggregate_def)
  have failed: "fst (snd (readSlot cfg path obs))
          = (if isnan (fst (readTemperatureSensor cfg path obs)) then [path] else [])"
    if "path \<noteq> []"
    using that by (simp add: readSlot_configured split: double.splits)
  from mean none some failed show ?thesis
    by (simp add: readSlot_empty)
qed

theorem getAverageTemperature_mean_witness:
  "temp_hwmon0_path example_config \<noteq> []
   \<and> valid_values (configured_readings example_config (Contents ''57500'') (Contents ''60000''))
       = [57.5, 60]
   \<and> fst (getAverageTemperature example_config (Contents ''57500'') (Contents ''60000''))
       = Fin 58.75
   \<and> valid_values (configured_readings example_config NotExists OpenFails) = []
   \<and> fst (getAverageTemperature example_config NotExists OpenFails) = NaN
   \<and> fst (snd (readSlot example_config (temp_hwmon0_path example_config) NotExists))
       = [temp_hwmon0_path example_config]
   \<and> fst (getAverageTemperature (example_config\<lparr>temp_hwmon1_path := []\<rparr>)
            (Contents ''57500'') NotExists) = Fin 57.5"
proof -
  have p: "temp_hwmon0_path example_config \<noteq> []"
    by (simp add: example_config_def)
  have r1: "configured_readings example_config (Contents ''57500'') (Contents ''60000'')
              = [Fin 57.5, Fin 60]"
    by (simp add: configured_readings_def read_57500 read_60000 example_config_def)
  have r2: "configured_readings example_config NotExists OpenFails = [NaN, NaN]"
    by (simp add: configured_readings_def readTemperatureSensor_def example_config_def)
  have r3: "configured_readings (example_config\<lparr>temp_hwmon1_path := []\<rparr>)
              (Contents ''57500'') NotExists = [Fin 57.5]"
    by (simp add: configured_readings_def read_57500 example_config_def)
  have m: "fst (readTemperatureSensor example_config (temp_hwmon0_path example_config) NotExists) = NaN"
    by (simp add: readTemperatureSensor_def)
  from p r1 r2 r3 m
    getAverageTemperature_mean [of example_config "Contents ''57500''" "Contents ''60000''"
      NotExists "temp_hwmon0_path example_config"]
    getAverageTemperature_mean [of example_config NotExists OpenFails]
    getAverageTemperature_mean [of "example_config\<lparr>temp_hwmon1_path := []\<rparr>"
      "Contents ''57500''" NotExists]
  show ?thesis
    by (simp add: spec_aggregate_def round64_235_4 round64_115_2)
qed

text \<open>
  C8, as the source has it. A read that fails returns NaN, and it prints something
  whatever the debug flag says exactly when the first line is not an \<^verbatim>\<open>int\<close> or the value
  is above 150 degrees; when the path is missing, the file cannot be opened or is empty,
  or the value is negative, it prints only with the debug flag set. A read that succeeds
  prints nothing, and a slot with an empty path is not read and prints nothing.
\<close>

theorem readTemperatureSensor_diagnostics:
  "(failure_of obs = None \<longrightarrow> (\<exists>x. readTemperatureSensor cfg path obs = (Fin x, [])))
   \<and> (failure_of obs \<noteq> None \<longrightarrow>
        fst (readTemperatureSensor cfg path obs) = NaN
        \<and> (snd (readTemperatureSensor cfg path obs) \<noteq> [])
            = (debug cfg \<or> failure_of obs = Some Unparsable \<or> failure_of obs = Some OutOfRange))
   \<and> readSlot cfg [] obs = ([], [], [])"
proof (intro conjI impI)
  assume "failure_of obs = None"
  then show "\<exists>x. readTemperatureSensor cfg path obs = (Fin x, [])"
    by (rule readTemperatureSensor_ok)
next
  assume "failure_of obs \<noteq> None"
  then obtain f where f: "failure_of obs = Some f" by auto
  from readTemperatureSensor_failed[OF f, of cfg path]
  show "fst (readTemperatureSensor cfg path obs) = NaN"
    and "(snd (readTemperatureSensor cfg path obs) \<noteq> [])
            = (debug cfg \<or> failure_of obs = Some Unparsable \<or> failure_of obs = Some OutOfRange)"
    using f by simp_all
next
  show "readSlot cfg [] obs = ([], [], [])" by (rule readSlot_empty)
qed

theorem readTemperatureSensor_diagnostics_witness:
  "failure_of (Contents ''151000'') = Some OutOfRange
   \<and> \<not> debug example_config
   \<and> snd (readTemperatureSensor example_config ''/sys/class/hwmon/hwmon0/temp1_input''
            (Contents ''151000'')) \<noteq> []
   \<and> failure_of OpenFails = Some Unreadable
   \<and> snd (readTemperatureSensor example_config ''/sys/class/hwmon/hwmon0/temp1_input''
            OpenFails) = []
   \<and> failure_of (Contents ''57500'') = None
   \<and> readTemperatureSensor example_config ''/sys/class/hwmon/hwmon0/temp1_input''
        (Contents ''57500'') = (Fin 57.5, [])"
proof -
  have f1: "failure_of (Contents ''151000'') = Some OutOfRange"
    by (simp add: failure_of_def getline_def stoi_151000)
  have f2: "failure_of OpenFails = Some Unreadable"
    by (simp add: failure_of_def)
  have f3: "failure_of (Contents ''57500'') = None"
    by (simp add: failure_of_def getline_def stoi_57500)
  have d: "\<not> debug example_config"
    by (simp add: example_config_def)
  from f1 f2 f3 d
    readTemperatureSensor_diagnostics [of "Contents ''151000''" example_config
      "''/sys/class/hwmon/hwmon0/temp1_input''"]
    readTemperatureSensor_diagnostics [of OpenFails example_config
      "''/sys/class/hwmon/hwmon0/temp1_input''"]
  show ?thesis
    by (simp add: read_57500)
qed

text \<open>
  C8 as stated fails: with the debug flag off, a read of a configured path that does not
  exist returns NaN and prints nothing, and the whole aggregation of that tick prints
  nothing when the other sensor is read.
\<close>

theorem readTemperatureSensor_silent_failure:
  "temp_hwmon0_path example_config \<noteq> []
   \<and> \<not> debug example_config
   \<and> failure_of NotExists = Some PathMissing
   \<and> readTemperatureSensor example_config (temp_hwmon0_path example_config) NotExists = (NaN, [])
   \<and> getAverageTemperature example_config NotExists (Contents ''57500'') = (Fin 57.5, [])"
  by (simp add: example_config_def failure_of_def readTemperatureSensor_def
      getAverageTemperature_def readSlot_def logDebug_def getline_def stoi_57500
      round64_115_2)

section \<open>Properties of the fan device and of the re-synchronisation\<close>

lemma speed_value_range: "0 \<le> speed_value s \<and> speed_value s \<le> 4"
  by (cases s) simp_all

lemma verifyFanSpeedWrite_result:
  "fst (verifyFanSpeedWrite cfg obs expected) = (fst (readFanSpeed cfg obs) = expected)"
  by (simp add: verifyFanSpeedWrite_def split: prod.splits)

lemma setFanSpeed_ok:
  "fst (setFanSpeed cfg st env speed) =
     (speed = current_fan_speed st
      \<or> (fw_exists env \<and> \<not> fw_throws env \<and> fw_open_ok env
          \<and> fst (verifyFanSpeedWrite cfg (fw_readback env) speed)))"
  using speed_value_range[of speed]
  by (simp add: setFanSpeed_def split: prod.splits)

lemma setFanSpeed_state:
  "fst (snd (setFanSpeed cfg st env speed)) =
     (if fst (setFanSpeed cfg st env speed) then st\<lparr>current_fan_speed := speed\<rparr> else st)"
  using speed_value_range[of speed]
  by (simp add: setFanSpeed_def split: prod.splits)

lemma stoi_2: "stoi ''2'' = Inr 2"
  by (simp add: stoi_def isspace_def isdigit_def)

lemma stoi_3: "stoi ''3'' = Inr 3"
  by (simp add: stoi_def isspace_def isdigit_def)

lemma readFanSpeed_2: "readFanSpeed cfg (Contents ''2'') = (MEDIUM, [])"
  by (simp add: readFanSpeed_def getline_def stoi_2 speed_of_int_def)

lemma readFanSpeed_3: "readFanSpeed cfg (Contents ''3'') = (HIGH, [])"
  by (simp add: readFanSpeed_def getline_def stoi_3 speed_of_int_def)

lemma measured_60000: "measured example_config (example_tick ''60000'' dev) = Fin 60"
proof -
  have "(2::real) powi (- 1021) \<le> 2 powi 0" by (rule two_powi_mono) simp
  then have big: "(2::real) powi (- 1021) \<le> 60" by simp
  show ?thesis
    by (rule measured_same[where a = 60])
       (simp_all add: example_config_def read_60000 round64_60 big)
qed

text \<open>
  C9. When \<^verbatim>\<open>setFanSpeed\<close> returns false the controller is as it was; whenever the speed is
  not the current one and the device file is missing, an exception is raised, the stream
  does not open or the verification fails, it returns false. The controller changes only
  when the verification has succeeded, and then to the requested speed.
\<close>

theorem setFanSpeed_atomic:
  "(\<not> fst (setFanSpeed cfg st env speed) \<longrightarrow> fst (snd (setFanSpeed cfg st env speed)) = st)
   \<and> (speed \<noteq> current_fan_speed st
        \<and> (\<not> fw_exists env \<or> fw_throws env \<or> \<not> fw_open_ok env
            \<or> \<not> fst (verifyFanSpeedWrite cfg (fw_readback env) speed))
        \<longrightarrow> \<not> fst (setFanSpeed cfg st env speed)
            \<and> fst (snd (setFanSpeed cfg st env speed)) = st)
   \<and> (fst (snd (setFanSpeed cfg st env speed)) \<noteq> st
        \<longrightarrow> fst (setFanSpeed cfg st env speed)
            \<and> fst (verifyFanSpeedWrite cfg (fw_readback env) speed)
            \<and> fst (snd (setFanSpeed cfg st env speed)) = st\<lparr>current_fan_speed := speed\<rparr>)"
proof -
  have a: "\<not> fst (setFanSpeed cfg st env speed) \<longrightarrow> fst (snd (setFanSpeed cfg st env speed)) = st"
    by (simp add: setFanSpeed_state)
  have b: "speed \<noteq> current_fan_speed st
        \<and> (\<not> fw_exists env \<or> fw_throws env \<or> \<not> fw_open_ok env
            \<or> \<not> fst (verifyFanSpeedWrite cfg (fw_readback env) speed))
        \<longrightarrow> \<not> fst (setFanSpeed cfg st env speed)
            \<and> fst (snd (setFanSpeed cfg st env speed)) = st"
    by (auto simp add: setFanSpeed_state setFanSpeed_ok)
  have c: "fst (snd (setFanSpeed cfg st env speed)) \<noteq> st
        \<longrightarrow> fst (setFanSpeed cfg st env speed)
            \<and> fst (verifyFanSpeedWrite cfg (fw_readback env) speed)
            \<and> fst (snd (setFanSpeed cfg st env speed)) = st\<lparr>current_fan_speed := speed\<rparr>"
  proof
    assume ch: "fst (snd (setFanSpeed cfg st env speed)) \<noteq> st"
    then have ok: "fst (setFanSpeed cfg st env speed)"
      by (auto simp add: setFanSpeed_state split: if_splits)
    with ch have "speed \<noteq> current_fan_speed st"
      by (auto simp add: setFanSpeed_state)
    with ok have "fst (verifyFanSpeedWrite cfg (fw_readback env) speed)"
      by (simp add: setFanSpeed_ok)
    with ok show "fst (setFanSpeed cfg st env speed)
            \<and> fst (verifyFanSpeedWrite cfg (fw_readback env) speed)
            \<and> fst (snd (setFanSpeed cfg st env speed)) = st\<lparr>current_fan_speed := speed\<rparr>"
      by (simp add: setFanSpeed_state)
  qed
  from a b c show ?thesis by blast
qed

theorem setFanSpeed_atomic_witness:
  "MEDIUM \<noteq> current_fan_speed \<lparr>current_fan_speed = LOW, running = True\<rparr>
   \<and> \<not> fst (verifyFanSpeedWrite example_config (fw_readback (healthy_write (Contents ''3''))) MEDIUM)
   \<and> \<not> fst (setFanSpeed example_config \<lparr>current_fan_speed = LOW, running = True\<rparr>
              (healthy_write (Contents ''3'')) MEDIUM)
   \<and> fst (snd (setFanSpeed example_config \<lparr>current_fan_speed = LOW, running = True\<rparr>
              (healthy_write (Contents ''3'')) MEDIUM))
       = \<lparr>current_fan_speed = LOW, running = True\<rparr>"
proof -
  have v: "\<not> fst (verifyFanSpeedWrite example_config (fw_readback (healthy_write (Contents ''3''))) MEDIUM)"
    by (simp add: verifyFanSpeedWrite_result healthy_write_def readFanSpeed_3)
  note paths = setFanSpeed_atomic [of example_config "\<lparr>current_fan_speed = LOW, running = True\<rparr>"
      "healthy_write (Contents ''3'')" MEDIUM, THEN conjunct2, THEN conjunct1]
  from v paths show ?thesis by simp
qed

text \<open>
  C7, as the source has it. \<^verbatim>\<open>setFanSpeed\<close> returns true exactly when the speed is already
  the current one, or the device file exists, no exception is raised, the stream opens
  and \<^verbatim>\<open>readFanSpeed\<close> afterwards gives the requested speed. The results of the stream
  write and of \<^verbatim>\<open>fsync\<close> have no part in it.
\<close>

theorem setFanSpeed_result:
  "fst (setFanSpeed cfg st env speed) =
     (speed = current_fan_speed st
      \<or> (fw_exists env \<and> \<not> fw_throws env \<and> fw_open_ok env
          \<and> fst (readFanSpeed cfg (fw_readback env)) = speed))"
  by (simp add: setFanSpeed_ok verifyFanSpeedWrite_result)

theorem setFanSpeed_result_witness:
  "fst (setFanSpeed example_config \<lparr>current_fan_speed = LOW, running = True\<rparr>
          (healthy_write (Contents ''2'')) MEDIUM)
   \<and> \<not> fst (setFanSpeed example_config \<lparr>current_fan_speed = LOW, running = True\<rparr>
              (healthy_write (Contents ''3'')) MEDIUM)
   \<and> \<not> fst (setFanSpeed example_config \<lparr>current_fan_speed = LOW, running = True\<rparr>
              ((healthy_write (Contents ''2''))\<lparr>fw_open_ok := False\<rparr>) MEDIUM)"
  using setFanSpeed_result [of example_config "\<lparr>current_fan_speed = LOW, running = True\<rparr>"
      "healthy_write (Contents ''2'')" MEDIUM]
    setFanSpeed_result [of example_config "\<lparr>current_fan_speed = LOW, running = True\<rparr>"
      "healthy_write (Contents ''3'')" MEDIUM]
    setFanSpeed_result [of example_config "\<lparr>current_fan_speed = LOW, running = True\<rparr>"
      "(healthy_write (Contents ''2''))\<lparr>fw_open_ok := False\<rparr>" MEDIUM]
  by (simp add: healthy_write_def readFanSpeed_2 readFanSpeed_3)

text \<open>
  C7 as stated fails: when \<^verbatim>\<open>fsync\<close> fails, or when the stream write fails, and the device
  file then reads the requested level, \<^verbatim>\<open>setFanSpeed\<close> returns true.
\<close>

theorem setFanSpeed_ignores_sync_failure:
  "\<not> fw_sync_ok ((healthy_write (Contents ''2''))\<lparr>fw_sync_ok := False\<rparr>)
   \<and> fst (setFanSpeed example_config \<lparr>current_fan_speed = LOW, running = True\<rparr>
          ((healthy_write (Contents ''2''))\<lparr>fw_sync_ok := False\<rparr>) MEDIUM)
   \<and> \<not> fw_write_ok ((healthy_write (Contents ''2''))\<lparr>fw_write_ok := False\<rparr>)
   \<and> fst (setFanSpeed example_config \<lparr>current_fan_speed = LOW, running = True\<rparr>
          ((healthy_write (Contents ''2''))\<lparr>fw_write_ok := False\<rparr>) MEDIUM)"
  by (simp add: setFanSpeed_def verifyFanSpeedWrite_def healthy_write_def readFanSpeed_2)

text \<open>
  C6. When a tick attempts a write (the measured temperature is a number, the target is
  admitted and differs from the current speed) and \<^verbatim>\<open>setFanSpeed\<close> returns false, the tick
  leaves the controller with the speed that \<^verbatim>\<open>readFanSpeed\<close> gives at the re-synchronising
  read and nothing else changed; if the loop was running and no \<^verbatim>\<open>stop()\<close> came, it goes on
  with the next iteration from that controller. With the default settings, at LOW and
  60 degrees the target is MEDIUM; when the device reads 3 after the write, the
  verification fails and the speed becomes HIGH.
\<close>

theorem iteration_resync:
  "(\<not> isnan (measured cfg env)
      \<and> checkHysteresis cfg st (measured cfg env) (determineTargetSpeed cfg (measured cfg env))
      \<and> determineTargetSpeed cfg (measured cfg env) \<noteq> current_fan_speed st
      \<and> \<not> fst (setFanSpeed cfg st (fan_write env) (determineTargetSpeed cfg (measured cfg env)))
    \<longrightarrow> fst (iteration cfg st env)
          = st\<lparr>current_fan_speed := fst (readFanSpeed cfg (fan_resync env))\<rparr>
        \<and> (running st \<and> \<not> stop_signal env \<longrightarrow>
             run_loop cfg st (env # rest)
               = map_option (\<lambda>(s, evs, n). (s, snd (iteration cfg st env) @ evs, Suc n))
                   (run_loop cfg (st\<lparr>current_fan_speed := fst (readFanSpeed cfg (fan_resync env))\<rparr>)
                      rest)))
   \<and> determineTargetSpeed example_config (measured example_config (example_tick ''60000'' ''3''))
       = MEDIUM
   \<and> \<not> fst (setFanSpeed example_config \<lparr>current_fan_speed = LOW, running = r\<rparr>
              (fan_write (example_tick ''60000'' ''3'')) MEDIUM)
   \<and> fst (iteration example_config \<lparr>current_fan_speed = LOW, running = r\<rparr>
            (example_tick ''60000'' ''3''))
       = \<lparr>current_fan_speed = HIGH, running = r\<rparr>"
proof -
  have general: "fst (iteration cfg st env)
          = st\<lparr>current_fan_speed := fst (readFanSpeed cfg (fan_resync env))\<rparr>
        \<and> (running st \<and> \<not> stop_signal env \<longrightarrow>
             run_loop cfg st (env # rest)
               = map_option (\<lambda>(s, evs, n). (s, snd (iteration cfg st env) @ evs, Suc n))
                   (run_loop cfg (st\<lparr>current_fan_speed := fst (readFanSpeed cfg (fan_resync env))\<rparr>)
                      rest))"
    if h: "\<not> isnan (measured cfg env)
      \<and> checkHysteresis cfg st (measured cfg env) (determineTargetSpeed cfg (measured cfg env))
      \<and> determineTargetSpeed cfg (measured cfg env) \<noteq> current_fan_speed st
      \<and> \<not> fst (setFanSpeed cfg st (fan_write env) (determineTargetSpeed cfg (measured cfg env)))"
  proof -
    from h have st: "fst (iteration cfg st env)
          = st\<lparr>current_fan_speed := fst (readFanSpeed cfg (fan_resync env))\<rparr>"
      by (simp add: iteration_state Let_def setFanSpeed_state)
    then obtain ev where "iteration cfg st env
          = (st\<lparr>current_fan_speed := fst (readFanSpeed cfg (fan_resync env))\<rparr>, ev)"
      by (cases "iteration cfg st env") simp
    then have "running st \<and> \<not> stop_signal env \<longrightarrow>
             run_loop cfg st (env # rest)
               = map_option (\<lambda>(s, evs, n). (s, snd (iteration cfg st env) @ evs, Suc n))
                   (run_loop cfg (st\<lparr>current_fan_speed := fst (readFanSpeed cfg (fan_resync env))\<rparr>)
                      rest)"
      by (auto split: option.splits prod.splits)
    with st show ?thesis by simp
  qed
  have t: "determineTargetSpeed example_config (measured example_config (example_tick ''60000'' ''3''))
       = MEDIUM"
    by (simp add: measured_60000) (simp add: determineTargetSpeed_def example_config_def)
  have w: "\<not> fst (setFanSpeed example_config \<lparr>current_fan_speed = LOW, running = r\<rparr>
              (fan_write (example_tick ''60000'' ''3'')) MEDIUM)"
    by (simp add: setFanSpeed_ok verifyFanSpeedWrite_result example_tick_def healthy_write_def
        readFanSpeed_3)
  have a: "checkHysteresis example_config \<lparr>current_fan_speed = LOW, running = r\<rparr> (Fin 60) MEDIUM"
    by (simp add: checkHysteresis_def example_config_def)
  have e: "fst (iteration example_config \<lparr>current_fan_speed = LOW, running = r\<rparr>
            (example_tick ''60000'' ''3''))
       = \<lparr>current_fan_speed = HIGH, running = r\<rparr>"
    using t w a
    by (simp add: iteration_state Let_def measured_60000 setFanSpeed_state)
       (simp add: example_tick_def readFanSpeed_3)
  from general t w e show ?thesis by blast
qed

theorem iteration_resync_witness:
  "\<not> isnan (measured example_config (example_tick ''60000'' ''3''))
   \<and> checkHysteresis example_config \<lparr>current_fan_speed = LOW, running = True\<rparr>
        (measured example_config (example_tick ''60000'' ''3''))
        (determineTargetSpeed example_config (measured example_config (example_tick ''60000'' ''3'')))
   \<and> determineTargetSpeed example_config (measured example_config (example_tick ''60000'' ''3''))
       \<noteq> current_fan_speed \<lparr>current_fan_speed = LOW, running = True\<rparr>
   \<and> \<not> fst (setFanSpeed example_config \<lparr>current_fan_speed = LOW, running = True\<rparr>
              (fan_write (example_tick ''60000'' ''3''))
              (determineTargetSpeed example_config
                 (measured example_config (example_tick ''60000'' ''3''))))
   \<and> running \<lparr>current_fan_speed = LOW, running = True\<rparr>
   \<and> \<not> stop_signal (example_tick ''60000'' ''3'')
   \<and> fst (iteration example_config \<lparr>current_fan_speed = LOW, running = True\<rparr>
            (example_tick ''60000'' ''3''))
       = \<lparr>current_fan_speed = HIGH, running = True\<rparr>
   \<and> run_loop example_config \<lparr>current_fan_speed = LOW, running = True\<rparr>
        [example_tick ''60000'' ''3''] = None"
proof -
  have r: "fst (readFanSpeed example_config (fan_resync (example_tick ''60000'' ''3''))) = HIGH"
    by (simp add: example_tick_def readFanSpeed_3)
  have s: "\<not> stop_signal (example_tick ''60000'' ''3'')"
    by (simp add: example_tick_def)
  have a: "checkHysteresis example_config \<lparr>current_fan_speed = LOW, running = True\<rparr> (Fin 60) MEDIUM"
    by (simp add: checkHysteresis_def example_config_def)
  from r s a
    iteration_resync [of example_config "example_tick ''60000'' ''3''"
      "\<lparr>current_fan_speed = LOW, running = True\<rparr>" "[]" True]
  show ?thesis
    by (simp add: measured_60000)
qed

section \<open>Starting and stopping the loop\<close>

lemma run_loop_stopped: "\<not> running st \<Longrightarrow> run_loop cfg st envs = Some (st, [], 0)"
  by (cases envs) simp_all

lemma run_loop_step:
  "running st \<Longrightarrow>
   run_loop cfg st (env # rest) =
     map_option (\<lambda>(s, evs, n). (s, snd (iteration cfg st env) @ evs, Suc n))
       (run_loop cfg (if stop_signal env then stop (fst (iteration cfg st env))
                      else fst (iteration cfg st env)) rest)"
  by (cases "iteration cfg st env") (auto split: option.splits)

lemma run_loop_no_stop:
  "running st \<Longrightarrow> \<forall>e \<in> set envs. \<not> stop_signal e \<Longrightarrow> run_loop cfg st envs = None"
proof (induction envs arbitrary: st)
  case Nil
  then show ?case by simp
next
  case (Cons env rest)
  from Cons.prems have "running (fst (iteration cfg st env))"
    by (simp add: iteration_running)
  with Cons.prems have "run_loop cfg (fst (iteration cfg st env)) rest = None"
    by (intro Cons.IH) simp_all
  with Cons.prems show ?case
    by (simp add: run_loop_step del: run_loop.simps)
qed

lemma run_loop_stop:
  "running st \<Longrightarrow> \<forall>e \<in> set pre. \<not> stop_signal e \<Longrightarrow> stop_signal env \<Longrightarrow>
   map_option (\<lambda>(s, evs, n). (s, n)) (run_loop cfg st (pre @ env # rest))
     = Some (stop (iterations cfg st (pre @ [env])), Suc (length pre))"
proof (induction pre arbitrary: st)
  case Nil
  have "\<not> running (stop (fst (iteration cfg st env)))"
    by (simp add: stop_def)
  then have "run_loop cfg (stop (fst (iteration cfg st env))) rest
               = Some (stop (fst (iteration cfg st env)), [], 0)"
    by (rule run_loop_stopped)
  with Nil show ?case
    by (simp add: run_loop_step del: run_loop.simps)
next
  case (Cons e pre)
  from Cons.prems have r: "running (fst (iteration cfg st e))"
    by (simp add: iteration_running)
  from Cons.prems have "\<forall>e \<in> set pre. \<not> stop_signal e" by simp
  from Cons.IH[OF r this Cons.prems(3)]
  have ih: "map_option (\<lambda>(s, evs, n). (s, n))
              (run_loop cfg (fst (iteration cfg st e)) (pre @ env # rest))
            = Some (stop (iterations cfg (fst (iteration cfg st e)) (pre @ [env])), Suc (length pre))" .
  from Cons.prems have "\<not> stop_signal e" by simp
  with Cons.prems(1) ih show ?case
    by (auto simp add: run_loop_step simp del: run_loop.simps)
qed

text \<open>
  C10. \<^verbatim>\<open>run\<close> stores true in the flag before the loop condition is first evaluated. So a
  \<^verbatim>\<open>stop()\<close> that completed before \<^verbatim>\<open>run\<close> changes nothing: the first iteration is done all
  the same, and with no later \<^verbatim>\<open>stop()\<close> the loop does not exit. A \<^verbatim>\<open>stop()\<close> that
  completes after the store and before the first evaluation ends the loop with no
  iteration done, and a \<^verbatim>\<open>stop()\<close> that completes during an iteration ends the loop when
  that iteration is over.
\<close>

theorem run_sets_running:
  "run cfg (stop st) stop_at_entry envs = run cfg st stop_at_entry envs
   \<and> run cfg (stop st) False (env # rest) =
        map_option (\<lambda>(s, evs, n). (s, snd (iteration cfg (st\<lparr>running := True\<rparr>) env) @ evs, Suc n))
          (run_loop cfg
             (if stop_signal env then stop (fst (iteration cfg (st\<lparr>running := True\<rparr>) env))
              else fst (iteration cfg (st\<lparr>running := True\<rparr>) env)) rest)
   \<and> ((\<forall>e \<in> set envs. \<not> stop_signal e) \<longrightarrow> run cfg (stop st) False envs = None)
   \<and> run cfg st True envs = Some (st\<lparr>running := False\<rparr>, [], 0)
   \<and> ((\<forall>e \<in> set pre. \<not> stop_signal e) \<and> stop_signal env \<longrightarrow>
        map_option (\<lambda>(s, evs, n). (s, n)) (run cfg st False (pre @ env # rest))
          = Some (stop (iterations cfg (st\<lparr>running := True\<rparr>) (pre @ [env])), Suc (length pre)))"
proof -
  have before: "run cfg (stop st) b es = run cfg st b es" for b es
    by (simp add: run_def stop_def)
  have first: "run cfg (stop st) False (env # rest) =
        map_option (\<lambda>(s, evs, n). (s, snd (iteration cfg (st\<lparr>running := True\<rparr>) env) @ evs, Suc n))
          (run_loop cfg
             (if stop_signal env then stop (fst (iteration cfg (st\<lparr>running := True\<rparr>) env))
              else fst (iteration cfg (st\<lparr>running := True\<rparr>) env)) rest)"
    unfolding before by (simp add: run_def run_loop_step del: run_loop.simps)
  have forever: "run cfg (stop st) False envs = None" if "\<forall>e \<in> set envs. \<not> stop_signal e"
    unfolding before using that by (simp add: run_def run_loop_no_stop)
  have entry: "run cfg st True envs = Some (st\<lparr>running := False\<rparr>, [], 0)"
    by (simp add: run_def stop_def run_loop_stopped)
  have during: "map_option (\<lambda>(s, evs, n). (s, n)) (run cfg st False (pre @ env # rest))
          = Some (stop (iterations cfg (st\<lparr>running := True\<rparr>) (pre @ [env])), Suc (length pre))"
    if "\<forall>e \<in> set pre. \<not> stop_signal e" "stop_signal env"
    using that by (simp add: run_def run_loop_stop del: run_loop.simps)
  from before first forever entry during show ?thesis by blast
qed

theorem run_sets_running_witness:
  "\<not> stop_signal (example_tick ''57500'' ''2'')
   \<and> stop_signal ((example_tick ''57500'' ''2'')\<lparr>stop_signal := True\<rparr>)
   \<and> run example_config (stop \<lparr>current_fan_speed = MEDIUM, running = True\<rparr>) False
        [example_tick ''57500'' ''2''] = None
   \<and> map_option (\<lambda>(s, evs, n). (s, n))
        (run example_config \<lparr>current_fan_speed = MEDIUM, running = False\<rparr> False
           ([example_tick ''57500'' ''2'']
            @ (example_tick ''57500'' ''2'')\<lparr>stop_signal := True\<rparr> # [example_tick ''57500'' ''2'']))
       = Some (\<lparr>current_fan_speed = MEDIUM, running = False\<rparr>, 2)"
proof -
  have s: "\<forall>e \<in> set [example_tick ''57500'' ''2'']. \<not> stop_signal e"
    by (simp add: example_tick_def)
  have m: "measured example_config ((example_tick ''57500'' ''2'')\<lparr>stop_signal := True\<rparr>) = Fin 57.5"
    using measured_57500[of "''2''"] by (simp add: measured_def example_tick_def)
  have t: "determineTargetSpeed example_config (Fin 57.5) = LOW"
    by (simp add: determineTargetSpeed_def example_config_def)
  have n: "\<not> checkHysteresis example_config \<lparr>current_fan_speed = MEDIUM, running = True\<rparr> (Fin 57.5) LOW"
    by (simp add: checkHysteresis_def example_config_def round64_57)
  have i1: "fst (iteration example_config \<lparr>current_fan_speed = MEDIUM, running = True\<rparr>
              (example_tick ''57500'' ''2'')) = \<lparr>current_fan_speed = MEDIUM, running = True\<rparr>"
    using t n by (simp add: iteration_not_admitted measured_57500)
  have i2: "fst (iteration example_config \<lparr>current_fan_speed = MEDIUM, running = True\<rparr>
              ((example_tick ''57500'' ''2'')\<lparr>stop_signal := True\<rparr>))
            = \<lparr>current_fan_speed = MEDIUM, running = True\<rparr>"
    using t n by (simp add: iteration_not_admitted m)
  note th = run_sets_running [of example_config "\<lparr>current_fan_speed = MEDIUM, running = True\<rparr>" False
      "[example_tick ''57500'' ''2'']" "(example_tick ''57500'' ''2'')\<lparr>stop_signal := True\<rparr>"
      "[example_tick ''57500'' ''2'']" "[example_tick ''57500'' ''2'']"]
  from th s have forever: "run example_config (stop \<lparr>current_fan_speed = MEDIUM, running = True\<rparr>) False
        [example_tick ''57500'' ''2''] = None"
    by blast
  note th2 = run_sets_running [of example_config "\<lparr>current_fan_speed = MEDIUM, running = False\<rparr>" False
      "[]" "(example_tick ''57500'' ''2'')\<lparr>stop_signal := True\<rparr>"
      "[example_tick ''57500'' ''2'']" "[example_tick ''57500'' ''2'']"]
  from th2 s have "map_option (\<lambda>(s, evs, n). (s, n))
        (run example_config \<lparr>current_fan_speed = MEDIUM, running = False\<rparr> False
           ([example_tick ''57500'' ''2'']
            @ (example_tick ''57500'' ''2'')\<lparr>stop_signal := True\<rparr> # [example_tick ''57500'' ''2'']))
       = Some (stop (iterations example_config
                      (\<lparr>current_fan_speed = MEDIUM, running = False\<rparr>\<lparr>running := True\<rparr>)
                      ([example_tick ''57500'' ''2'']
                       @ [(example_tick ''57500'' ''2'')\<lparr>stop_signal := True\<rparr>])),
               Suc (length [example_tick ''57500'' ''2'']))"
    by (simp add: example_tick_def)
  then have during: "map_option (\<lambda>(s, evs, n). (s, n))
        (run example_config \<lparr>current_fan_speed = MEDIUM, running = False\<rparr> False
           ([example_tick ''57500'' ''2'']
            @ (example_tick ''57500'' ''2'')\<lparr>stop_signal := True\<rparr> # [example_tick ''57500'' ''2'']))
       = Some (\<lparr>current_fan_speed = MEDIUM, running = False\<rparr>, 2)"
    by (simp add: i1 i2 stop_def numeral_2_eq_2)
  have s2: "stop_signal ((example_tick ''57500'' ''2'')\<lparr>stop_signal := True\<rparr>)"
    by simp
  have s1: "\<not> stop_signal (example_tick ''57500'' ''2'')"
    by (simp add: example_tick_def)
  from s1 s2 forever during show ?thesis
    by blast
qed

end
